theory Spec2Isabelle
  imports Main "HOL-Library.AList"
begin

section \<open>The join descriptor and the map variant tags\<close>

text \<open>
  \<^verbatim>\<open>ASTTableJoin::Kind\<close> and \<^verbatim>\<open>ASTTableJoin::Strictness\<close> are declared outside
  \<^verbatim>\<open>HashJoin.cpp\<close>; their members are the ones the join descriptor of the
  specification lists. The strictness \<^verbatim>\<open>All\<close> is written \<open>All'\<close>, since \<open>All\<close> is
  the universal quantifier of HOL.
\<close>

datatype Kind = Inner | Left | Right | Full | Cross

datatype Strictness = RightAny | Any | All' | Asof | Semi | Anti

text \<open>\<^verbatim>\<open>HashJoin::Type\<close>: the three sentinels and the nine map variants.\<close>

datatype Type =
    EMPTY | CROSS | DICT
  | key8 | key16 | key32 | key64
  | key_string | key_fixed_string
  | keys128 | keys256 | hashed

text \<open>
  The error codes \<^verbatim>\<open>HashJoin.cpp\<close> declares (\<^verbatim>\<open>namespace ErrorCodes\<close>).
\<close>

datatype error =
    NOT_IMPLEMENTED | NO_SUCH_COLUMN_IN_TABLE | INCOMPATIBLE_TYPE_OF_JOIN
  | UNSUPPORTED_JOIN_KEYS | LOGICAL_ERROR | SYNTAX_ERROR | SET_SIZE_LIMIT_EXCEEDED
  | TYPE_MISMATCH | NUMBER_OF_ARGUMENTS_DOESNT_MATCH

definition isLeft :: "Kind \<Rightarrow> bool" where
  "isLeft k = (k = Left)"

definition isInner :: "Kind \<Rightarrow> bool" where
  "isInner k = (k = Inner)"

definition isFull :: "Kind \<Rightarrow> bool" where
  "isFull k = (k = Full)"

definition isRightOrFull :: "Kind \<Rightarrow> bool" where
  "isRightOrFull k = (k = Right \<or> k = Full)"

definition isInnerOrRight :: "Kind \<Rightarrow> bool" where
  "isInnerOrRight k = (k = Inner \<or> k = Right)"

section \<open>The key method chooser\<close>

text \<open>
  \<^verbatim>\<open>chooseMethod\<close> reads four things of a key column: \<^verbatim>\<open>isFixedAndContiguous()\<close>,
  \<^verbatim>\<open>sizeOfValueIfFixed()\<close>, \<^verbatim>\<open>isNumeric()\<close> and its dynamic class, which it tests with
  \<^verbatim>\<open>typeid_cast\<close> for \<^verbatim>\<open>ColumnString\<close>, for \<^verbatim>\<open>ColumnFixedString\<close> and for a
  \<^verbatim>\<open>ColumnConst\<close> over a \<^verbatim>\<open>ColumnString\<close>. The column classes live outside
  \<^verbatim>\<open>HashJoin.cpp\<close>, so a key column is the record of these four answers. Sizes are
  \<^verbatim>\<open>size_t\<close>; a sum of value widths stays far below \<open>2 ^ 64\<close>, so they are naturals.
\<close>

datatype ColumnClass = ColumnString | ColumnFixedString | ColumnConstOfString | ColumnOther

record IColumn =
  isFixedAndContiguous :: bool
  sizeOfValueIfFixed :: nat
  isNumeric :: bool
  column_class :: ColumnClass

text \<open>\<^verbatim>\<open>key_sizes.resize(keys_size)\<close>: truncate, or extend with zeros.\<close>

definition resize :: "nat \<Rightarrow> nat list \<Rightarrow> nat list" where
  "resize n xs = take n xs @ replicate (n - length xs) 0"

text \<open>
  The loop over the key columns, from column \<open>j\<close> on. It returns \<^verbatim>\<open>all_fixed\<close>,
  \<^verbatim>\<open>keys_bytes\<close> and \<^verbatim>\<open>key_sizes\<close>; the \<^verbatim>\<open>break\<close> at the first column that is not
  fixed and contiguous leaves the two accumulators as they are.
\<close>

fun chooseMethod_loop :: "IColumn list \<Rightarrow> nat \<Rightarrow> nat \<Rightarrow> nat list \<Rightarrow> bool \<times> nat \<times> nat list" where
  "chooseMethod_loop [] j keys_bytes key_sizes = (True, keys_bytes, key_sizes)"
| "chooseMethod_loop (c # cs) j keys_bytes key_sizes =
     (if \<not> isFixedAndContiguous c then (False, keys_bytes, key_sizes)
      else chooseMethod_loop cs (Suc j) (keys_bytes + sizeOfValueIfFixed c)
             (key_sizes[j := sizeOfValueIfFixed c]))"

text \<open>
  \<^verbatim>\<open>HashJoin::chooseMethod(key_columns, key_sizes)\<close>. The result is the variant tag
  with the updated \<^verbatim>\<open>key_sizes\<close>, or the logical error of a numeric column of an
  unexpected width.
\<close>

definition chooseMethod :: "IColumn list \<Rightarrow> nat list \<Rightarrow> error + (Type \<times> nat list)" where
  "chooseMethod key_columns key_sizes =
     (let keys_size = length key_columns in
      if keys_size = 0 then Inr (CROSS, key_sizes)
      else
        (case chooseMethod_loop key_columns 0 0 (resize keys_size key_sizes) of
           (all_fixed, keys_bytes, key_sizes') \<Rightarrow>
             if keys_size = 1 \<and> isNumeric (key_columns ! 0) then
               (let size_of_field = sizeOfValueIfFixed (key_columns ! 0) in
                if size_of_field = 1 then Inr (key8, key_sizes')
                else if size_of_field = 2 then Inr (key16, key_sizes')
                else if size_of_field = 4 then Inr (key32, key_sizes')
                else if size_of_field = 8 then Inr (key64, key_sizes')
                else if size_of_field = 16 then Inr (keys128, key_sizes')
                else if size_of_field = 32 then Inr (keys256, key_sizes')
                else Inl LOGICAL_ERROR)
             else if all_fixed \<and> keys_bytes \<le> 16 then Inr (keys128, key_sizes')
             else if all_fixed \<and> keys_bytes \<le> 32 then Inr (keys256, key_sizes')
             else if keys_size = 1
                     \<and> (column_class (key_columns ! 0) = ColumnString
                        \<or> column_class (key_columns ! 0) = ColumnConstOfString)
               then Inr (key_string, key_sizes')
             else if keys_size = 1 \<and> column_class (key_columns ! 0) = ColumnFixedString
               then Inr (key_fixed_string, key_sizes')
             else Inr (hashed, key_sizes')))"

text \<open>
  The chooser as section 4.1 of the specification words it, to be compared with the
  source's: \<open>spec_all_fixed\<close> says that every key column has the fixed contiguous layout,
  \<open>spec_total_bytes\<close> adds the widths of the key columns.
\<close>

definition spec_all_fixed :: "IColumn list \<Rightarrow> bool" where
  "spec_all_fixed key_columns = list_all isFixedAndContiguous key_columns"

definition spec_total_bytes :: "IColumn list \<Rightarrow> nat" where
  "spec_total_bytes key_columns = sum_list (map sizeOfValueIfFixed key_columns)"

definition numeric_width_tag :: "nat \<Rightarrow> error + Type" where
  "numeric_width_tag w =
     (if w = 1 then Inr key8 else if w = 2 then Inr key16
      else if w = 4 then Inr key32 else if w = 8 then Inr key64
      else if w = 16 then Inr keys128 else if w = 32 then Inr keys256
      else Inl LOGICAL_ERROR)"

definition chooseMethod_spec :: "IColumn list \<Rightarrow> error + Type" where
  "chooseMethod_spec key_columns =
     (case key_columns of
        [] \<Rightarrow> Inr CROSS
      | c # cs \<Rightarrow>
          if cs = [] \<and> isNumeric c then numeric_width_tag (sizeOfValueIfFixed c)
          else if spec_all_fixed key_columns \<and> spec_total_bytes key_columns \<le> 16 then Inr keys128
          else if spec_all_fixed key_columns \<and> spec_total_bytes key_columns \<le> 32 then Inr keys256
          else if cs = [] \<and> column_class c \<in> {ColumnString, ColumnConstOfString}
            then Inr key_string
          else if cs = [] \<and> column_class c = ColumnFixedString then Inr key_fixed_string
          else Inr hashed)"

section \<open>Columns and blocks\<close>

text \<open>
  The columnar storage layer is outside \<^verbatim>\<open>HashJoin.cpp\<close>; the model keeps what the
  join reads of it. A cell is a \<open>Field\<close>; a column of a \<^verbatim>\<open>Nullable\<close> type holds
  \<open>Null\<close> exactly where its null map is 1, so the null map of a nullable column and
  its nested column are both read off the cells. A block is the list of its columns.
\<close>

datatype Field = Null | IntField int | StrField string

datatype DataType = TypeInt64 | TypeString | TypeNullable DataType

record ColumnWithTypeAndName =
  column :: "Field list"
  column_type :: DataType
  name :: string

type_synonym Block = "ColumnWithTypeAndName list"

definition isNullable :: "ColumnWithTypeAndName \<Rightarrow> bool" where
  "isNullable c = (case column_type c of TypeNullable t \<Rightarrow> True | _ \<Rightarrow> False)"

fun getDefault :: "DataType \<Rightarrow> Field" where
  "getDefault TypeInt64 = IntField 0"
| "getDefault TypeString = StrField []"
| "getDefault (TypeNullable t) = Null"

definition getNullMapData :: "ColumnWithTypeAndName \<Rightarrow> bool list" where
  "getNullMapData c = map (\<lambda>v. v = Null) (column c)"

text \<open>\<^verbatim>\<open>Block::rows()\<close>: the size of the first column, 0 for a block of no columns.\<close>

definition rows :: "Block \<Rightarrow> nat" where
  "rows block = (case block of [] \<Rightarrow> 0 | c # cs \<Rightarrow> length (column c))"

definition findByName :: "Block \<Rightarrow> string \<Rightarrow> ColumnWithTypeAndName option" where
  "findByName block n = find (\<lambda>c. name c = n) block"

text \<open>
  \<^verbatim>\<open>Block::getByName\<close> throws for a name the block does not have; the error code is
  none of those of \<^verbatim>\<open>HashJoin.cpp\<close>, and the callers of this file let it through.
  \<open>getColumns\<close> is \<^verbatim>\<open>JoinCommon::materializeColumnsInplace\<close>, which looks every key
  name up (constant columns are already full columns here).
  Two more ways a call can end are values of the same type: \<open>Abort\<close> is a failed
  \<^verbatim>\<open>assert\<close> in a build that checks assertions, \<open>UndefinedBehaviour\<close> is an access
  to the used flags outside the vector, after which the source promises nothing.
\<close>

datatype exception =
  Exception error | NOT_FOUND_COLUMN_IN_BLOCK | Abort | UndefinedBehaviour

definition getByName :: "Block \<Rightarrow> string \<Rightarrow> exception + ColumnWithTypeAndName" where
  "getByName block n =
     (case findByName block n of None \<Rightarrow> Inl NOT_FOUND_COLUMN_IN_BLOCK | Some c \<Rightarrow> Inr c)"

fun getColumns :: "Block \<Rightarrow> string list \<Rightarrow> exception + ColumnWithTypeAndName list" where
  "getColumns block [] = Inr []"
| "getColumns block (n # ns) =
     (case getByName block n of
        Inl e \<Rightarrow> Inl e
      | Inr c \<Rightarrow> (case getColumns block ns of Inl e \<Rightarrow> Inl e | Inr cs \<Rightarrow> Inr (c # cs)))"

text \<open>\<^verbatim>\<open>JoinCommon::convertColumnToNullable\<close> and \<^verbatim>\<open>convertColumnsToNullable\<close>.\<close>

definition convertColumnToNullable :: "ColumnWithTypeAndName \<Rightarrow> ColumnWithTypeAndName" where
  "convertColumnToNullable c =
     (if isNullable c then c else c\<lparr>column_type := TypeNullable (column_type c)\<rparr>)"

definition convertColumnsToNullable :: "Block \<Rightarrow> Block" where
  "convertColumnsToNullable block = map convertColumnToNullable block"

subsection \<open>NullableUtils.cpp\<close>

text \<open>
  \<^verbatim>\<open>mutable_null_map[i] |= other_null_map[i]\<close> for every \<open>i\<close> below the size of the
  first map.
\<close>

definition or_null_map :: "bool list \<Rightarrow> bool list \<Rightarrow> bool list" where
  "or_null_map null_map other = map (\<lambda>i. null_map ! i \<or> other ! i) [0..<length null_map]"

fun null_map_holder_loop :: "ColumnWithTypeAndName list \<Rightarrow> bool list option \<Rightarrow> bool list option" where
  "null_map_holder_loop [] holder = holder"
| "null_map_holder_loop (c # cs) holder =
     (if isNullable c then
        null_map_holder_loop cs
          (case holder of
             None \<Rightarrow> Some (getNullMapData c)
           | Some m \<Rightarrow> Some (or_null_map m (getNullMapData c)))
      else null_map_holder_loop cs holder)"

text \<open>
  \<^verbatim>\<open>extractNestedColumnsAndNullMap(key_columns, null_map)\<close>: the key columns with
  every nullable one replaced by its nested column, and the null map, \<open>None\<close> for the
  null pointer. With one key column the map is that column's; with several it is the
  disjunction of the maps of the nullable ones.
\<close>

definition extractNestedColumnsAndNullMap ::
  "ColumnWithTypeAndName list \<Rightarrow> Field list list \<times> bool list option" where
  "extractNestedColumnsAndNullMap key_columns =
     (if length key_columns = 1 then
        (let c = key_columns ! 0 in
         if isNullable c then ([column c], Some (getNullMapData c)) else ([column c], None))
      else (map column key_columns, null_map_holder_loop key_columns None))"

section \<open>The right table data\<close>

text \<open>
  A \<^verbatim>\<open>RowRef\<close> is a block pointer and a row number. The blocks of the right table
  are only ever appended to \<^verbatim>\<open>data->blocks\<close> and never move, so the pointer is the
  position of the block in that list.
\<close>

type_synonym RowRef = "nat \<times> nat"

text \<open>
  A map of a \<^verbatim>\<open>MapsVariant\<close>. The nine variants differ in how they encode the key
  tuple of a row (\<^verbatim>\<open>KeyGetterForTypeImpl\<close>); the model takes the encodings to be
  injective and keys a map by the tuple of nested key values itself. The mapped value
  is the list of row references: one reference for a \<^verbatim>\<open>RowRef\<close>, the chain for a
  \<^verbatim>\<open>RowRefList\<close>, the entries for \<^verbatim>\<open>AsofRowRefs\<close>.
\<close>

type_synonym Mapped = "RowRef list"

type_synonym Map = "(Field list \<times> Mapped) list"

text \<open>
  What the join asks of the hash table library, which is outside \<^verbatim>\<open>HashJoin.cpp\<close>:
  the byte size of a block, the number of cells of the buffer, the ordinal of the cell
  of a key (the offset that indexes the used flags), the row and byte counts of a map
  and the size of the arena. They are parameters of the model, and so is whether the
  build checks assertions (\<^verbatim>\<open>NDEBUG\<close> not defined).
\<close>

record HashTable =
  assertions :: bool
  bytes :: "Block \<Rightarrow> nat"
  getBufferSizeInCells :: "Map \<Rightarrow> nat"
  offsetInternal :: "Map \<Rightarrow> Field list \<Rightarrow> nat"
  getTotalRowCountImpl :: "Map \<Rightarrow> nat"
  getTotalByteCountImpl :: "Map \<Rightarrow> nat"
  pool_size :: "Map list \<Rightarrow> nat"

text \<open>
  Modelled from the spec: \<^verbatim>\<open>SizeLimits::check\<close> is outside the source files. By
  sections 4.3 (step 8) and 5 a violated limit either fails with
  \<^verbatim>\<open>SetSizeLimitExceeded\<close> or makes the check return false; a limit of 0 is no limit.
\<close>

record SizeLimits =
  max_rows :: nat
  max_bytes :: nat
  overflow_throw :: bool

definition check :: "SizeLimits \<Rightarrow> nat \<Rightarrow> nat \<Rightarrow> error \<Rightarrow> exception + bool" where
  "check limits total_rows total_bytes code =
     (if (max_rows limits \<noteq> 0 \<and> max_rows limits < total_rows)
         \<or> (max_bytes limits \<noteq> 0 \<and> max_bytes limits < total_bytes)
      then (if overflow_throw limits then Inl (Exception code) else Inr False)
      else Inr True)"

record JoinUsedFlags =
  need_flags :: bool
  flags :: "bool list"

text \<open>
  The state of a \<^verbatim>\<open>HashJoin\<close>: the members the modelled functions read, with the
  \<^verbatim>\<open>RightTableData\<close> (\<open>data_type\<close>, \<open>data_empty\<close>, \<open>blocks\<close>, \<open>blocks_nullmaps\<close>,
  \<open>maps\<close>) inlined. \<open>flagged\<close> and \<open>mapped_one\<close> are the two answers of
  \<^verbatim>\<open>MapGetter<KIND, STRICTNESS>\<close> for the kind and strictness of the instance: whether
  the shape tracks used rows, and whether its map holds a single \<^verbatim>\<open>RowRef\<close> per key.
  The table is in \<^verbatim>\<open>joinDispatch.h\<close>, outside the source files, so both are
  parameters. \<open>storage_join_locked\<close> is \<^verbatim>\<open>storage_join_lock.mutex()\<close>.
\<close>

record HashJoin =
  kind :: Kind
  strictness :: Strictness
  key_names_right :: "string list list"
  key_names_left :: "string list list"
  nullable_right_side :: bool
  nullable_left_side :: bool
  any_take_last_row :: bool
  flagged :: bool
  mapped_one :: bool
  size_limits :: SizeLimits
  max_joined_block_rows :: nat
  storage_join_locked :: bool
  sample_block_with_columns_to_add :: Block
  saved_block_sample :: Block
  key_sizes :: "nat list list"
  data_type :: Type
  data_empty :: bool
  blocks :: "Block list"
  blocks_nullmaps :: "(nat \<times> bool list option) list"
  maps :: "Map list"
  used_flags :: JoinUsedFlags

definition overDictionary :: "HashJoin \<Rightarrow> bool" where
  "overDictionary join = (data_type join = DICT)"

definition empty :: "HashJoin \<Rightarrow> bool" where
  "empty join = (data_type join = EMPTY)"

definition alwaysReturnsEmptySet :: "HashJoin \<Rightarrow> bool" where
  "alwaysReturnsEmptySet join =
     (isInnerOrRight (kind join) \<and> data_empty join \<and> \<not> overDictionary join)"

section \<open>Ingestion of a right block\<close>

text \<open>
  Modelled from the spec: \<^verbatim>\<open>RowRefList::insert\<close> and \<^verbatim>\<open>AsofRowRefs::insert\<close> are
  outside the source files. By section 4.3 a chain keeps its head and gets a new node
  prepended to its overflow; the entries of an ASOF structure are ordered by the
  inequality key at lookup, so the model only records them.
\<close>

fun RowRefList_insert :: "Mapped \<Rightarrow> RowRef \<Rightarrow> Mapped" where
  "RowRefList_insert [] r = [r]"
| "RowRefList_insert (h # overflow) r = h # r # overflow"

definition AsofRowRefs_insert :: "Mapped \<Rightarrow> RowRef \<Rightarrow> Mapped" where
  "AsofRowRefs_insert mapped r = mapped @ [r]"

text \<open>
  The three \<^verbatim>\<open>Inserter\<close> functions. \<^verbatim>\<open>emplaceKey\<close> finds the cell of the key or
  makes it; \<^verbatim>\<open>isInserted()\<close> is \<open>map_of m key = None\<close>.
\<close>

definition insertOne :: "HashJoin \<Rightarrow> Map \<Rightarrow> Field list \<Rightarrow> RowRef \<Rightarrow> Map" where
  "insertOne join m key r =
     (if map_of m key = None \<or> any_take_last_row join then AList.update key [r] m else m)"

definition insertAll :: "Map \<Rightarrow> Field list \<Rightarrow> RowRef \<Rightarrow> Map" where
  "insertAll m key r =
     (case map_of m key of
        None \<Rightarrow> AList.update key [r] m
      | Some mapped \<Rightarrow> AList.update key (RowRefList_insert mapped r) m)"

definition insertAsof :: "Map \<Rightarrow> Field list \<Rightarrow> RowRef \<Rightarrow> Map" where
  "insertAsof m key r =
     (case map_of m key of
        None \<Rightarrow> AList.update key (AsofRowRefs_insert [] r) m
      | Some mapped \<Rightarrow> AList.update key (AsofRowRefs_insert mapped r) m)"

text \<open>
  \<^verbatim>\<open>createKeyGetter\<close> drops the last key column of an ASOF join; the key of row \<open>i\<close>
  is the tuple of the cells of the key columns at \<open>i\<close>.
\<close>

definition createKeyGetter :: "bool \<Rightarrow> Field list list \<Rightarrow> Field list list" where
  "createKeyGetter is_asof_join key_columns =
     (if is_asof_join then butlast key_columns else key_columns)"

definition getKey :: "Field list list \<Rightarrow> nat \<Rightarrow> Field list" where
  "getKey key_getter i = map (\<lambda>c. c ! i) key_getter"

definition is_null_at :: "bool list option \<Rightarrow> nat \<Rightarrow> bool" where
  "is_null_at null_map i = (case null_map of None \<Rightarrow> False | Some m \<Rightarrow> m ! i)"

text \<open>
  \<^verbatim>\<open>insertFromBlockImplTypeCase\<close>: the loop over the rows of the block skips a row
  whose null map entry is set and inserts every other row.
\<close>

definition insertRow ::
  "HashJoin \<Rightarrow> Field list list \<Rightarrow> nat \<Rightarrow> bool list option \<Rightarrow> nat \<Rightarrow> Map \<Rightarrow> Map" where
  "insertRow join key_getter stored_block null_map i m =
     (if is_null_at null_map i then m
      else if strictness join = Asof then insertAsof m (getKey key_getter i) (stored_block, i)
      else if mapped_one join then insertOne join m (getKey key_getter i) (stored_block, i)
      else insertAll m (getKey key_getter i) (stored_block, i))"

definition insertFromBlockImplTypeCase ::
  "HashJoin \<Rightarrow> Map \<Rightarrow> nat \<Rightarrow> Field list list \<Rightarrow> nat \<Rightarrow> bool list option \<Rightarrow> Map" where
  "insertFromBlockImplTypeCase join m n key_columns stored_block null_map =
     fold (insertRow join (createKeyGetter (strictness join = Asof) key_columns)
             stored_block null_map) [0..<n] m"

text \<open>
  \<^verbatim>\<open>insertFromBlockImpl\<close>: nothing is inserted under a sentinel tag, and the size
  returned is 0; under a map variant it is the number of cells of the map.
\<close>

definition insertFromBlockImpl ::
  "HashTable \<Rightarrow> HashJoin \<Rightarrow> Type \<Rightarrow> Map \<Rightarrow> nat \<Rightarrow> Field list list \<Rightarrow> nat \<Rightarrow> bool list option
   \<Rightarrow> Map \<times> nat" where
  "insertFromBlockImpl X join t m n key_columns stored_block null_map =
     (if t = EMPTY \<or> t = CROSS \<or> t = DICT then (m, 0)
      else
        (let m' = insertFromBlockImplTypeCase join m n key_columns stored_block null_map
         in (m', getBufferSizeInCells X m')))"

text \<open>
  \<^verbatim>\<open>JoinUsedFlags::reinit<KIND, STRICTNESS>(size)\<close>, for a flagged shape: the
  \<^verbatim>\<open>assert(flags.size() <= size)\<close>, which aborts in a build that checks assertions,
  then a new vector of \<open>size\<close> clear flags.
\<close>

definition reinit :: "bool \<Rightarrow> bool \<Rightarrow> nat \<Rightarrow> JoinUsedFlags \<Rightarrow> exception + JoinUsedFlags" where
  "reinit checked is_flagged size' uf =
     (if is_flagged then
        (if checked \<and> \<not> length (flags uf) \<le> size' then Inl Abort
         else Inr \<lparr>need_flags = True, flags = replicate size' False\<rparr>)
      else Inr uf)"

definition getTotalRowCount :: "HashTable \<Rightarrow> HashJoin \<Rightarrow> nat" where
  "getTotalRowCount X join =
     (if data_type join = CROSS then sum_list (map rows (blocks join))
      else if data_type join \<noteq> DICT then sum_list (map (getTotalRowCountImpl X) (maps join))
      else 0)"

definition getTotalByteCount :: "HashTable \<Rightarrow> HashJoin \<Rightarrow> nat" where
  "getTotalByteCount X join =
     (if data_type join = CROSS then sum_list (map (bytes X) (blocks join))
      else if data_type join \<noteq> DICT
        then sum_list (map (getTotalByteCountImpl X) (maps join)) + pool_size X (maps join)
      else 0)"

text \<open>
  \<^verbatim>\<open>structureRightBlock\<close>: the columns the saved sample names, taken from the block
  and widened to nullable where the sample column is nullable.
\<close>

fun structureRightBlock_loop :: "Block \<Rightarrow> Block \<Rightarrow> exception + Block" where
  "structureRightBlock_loop [] block = Inr []"
| "structureRightBlock_loop (sample_column # sample) block =
     (case getByName block (name sample_column) of
        Inl e \<Rightarrow> Inl e
      | Inr c \<Rightarrow>
          (case structureRightBlock_loop sample block of
             Inl e \<Rightarrow> Inl e
           | Inr structured \<Rightarrow>
               Inr ((if isNullable sample_column then convertColumnToNullable c else c)
                    # structured)))"

definition structureRightBlock :: "HashJoin \<Rightarrow> Block \<Rightarrow> exception + Block" where
  "structureRightBlock join block = structureRightBlock_loop (saved_block_sample join) block"

text \<open>
  The ordered union \<^verbatim>\<open>all_key_names_right\<close> of the key names of all disjuncts and,
  for each disjunct, the positions \<^verbatim>\<open>key_names_right_indexes[d]\<close> of its key names
  in the union. \<open>find_position\<close> is \<^verbatim>\<open>std::find\<close> with \<^verbatim>\<open>std::distance\<close>. The first
  disjunct fills the union and gets the positions \<open>0, 1, ...\<close> (\<^verbatim>\<open>std::iota\<close>). The
  constructor is given at least one disjunct; for no disjunct, where the source reads
  \<^verbatim>\<open>key_names_right[0]\<close> out of range, the model has no key name.
\<close>

fun find_position :: "'a list \<Rightarrow> 'a \<Rightarrow> nat option" where
  "find_position [] x = None"
| "find_position (y # ys) x =
     (if y = x then Some 0 else map_option Suc (find_position ys x))"

fun key_names_indexes_disjunct ::
  "string list \<Rightarrow> string list \<Rightarrow> nat list \<Rightarrow> string list \<times> nat list" where
  "key_names_indexes_disjunct all_names [] indexes = (all_names, indexes)"
| "key_names_indexes_disjunct all_names (n # ns) indexes =
     (case find_position all_names n of
        None \<Rightarrow> key_names_indexes_disjunct (all_names @ [n]) ns (indexes @ [length all_names])
      | Some pos \<Rightarrow> key_names_indexes_disjunct all_names ns (indexes @ [pos]))"

fun key_names_indexes_rest ::
  "string list \<Rightarrow> string list list \<Rightarrow> string list \<times> nat list list" where
  "key_names_indexes_rest all_names [] = (all_names, [])"
| "key_names_indexes_rest all_names (names # rest) =
     (case key_names_indexes_disjunct all_names names [] of
        (all_names', indexes) \<Rightarrow>
          (case key_names_indexes_rest all_names' rest of
             (all_names'', indexes_rest) \<Rightarrow> (all_names'', indexes # indexes_rest)))"

definition key_names_right_indexes :: "string list list \<Rightarrow> string list \<times> nat list list" where
  "key_names_right_indexes names =
     (case names of
        [] \<Rightarrow> ([], [])
      | names0 # rest \<Rightarrow>
          (case key_names_indexes_rest names0 rest of
             (all_names, indexes_rest) \<Rightarrow> (all_names, [0..<length names0] # indexes_rest)))"

text \<open>
  The part of the loop body of \<^verbatim>\<open>addJoinedBlock\<close> under
  \<^verbatim>\<open>kind != ASTTableJoin::Kind::Cross\<close>, for disjunct \<open>d\<close>: the rows go into the map
  of the disjunct and the used flags are initialised again for the size of that map
  plus one. A failed assertion ends the call, with the map already filled.
\<close>

definition insert_disjunct ::
  "HashTable \<Rightarrow> HashJoin \<Rightarrow> nat \<Rightarrow> nat \<Rightarrow> Field list list \<Rightarrow> nat \<Rightarrow> bool list option
   \<Rightarrow> (exception \<times> HashJoin) + HashJoin" where
  "insert_disjunct X join d n key_columns stored_block null_map =
     (if kind join \<noteq> Cross then
        (case insertFromBlockImpl X join (data_type join) (maps join ! d) n
                key_columns stored_block null_map of
           (m', size') \<Rightarrow>
             (case reinit (assertions X) (flagged join) (size' + 1) (used_flags join) of
                Inl e \<Rightarrow> Inl (e, join\<lparr>maps := (maps join)[d := m']\<rparr>)
              | Inr uf \<Rightarrow> Inr (join\<lparr>maps := (maps join)[d := m'], used_flags := uf\<rparr>)))
      else Inr join)"

text \<open>
  The loop of \<^verbatim>\<open>addJoinedBlock\<close> over the disjuncts, from disjunct \<open>d\<close> on, and what
  follows it. \<open>indexes\<close> are the positions of the key columns of the disjuncts still to
  do, \<open>n\<close> is the number of rows of the block, \<open>totals\<close> are \<^verbatim>\<open>total_rows\<close> and
  \<^verbatim>\<open>total_bytes\<close>. The \<^verbatim>\<open>return true\<close> of a call without limit check is inside
  the loop body, as in the source.
\<close>

fun addJoinedBlock_loop ::
  "HashTable \<Rightarrow> bool \<Rightarrow> nat \<Rightarrow> ColumnWithTypeAndName list \<Rightarrow> nat \<Rightarrow> nat list list \<Rightarrow> nat
   \<Rightarrow> bool \<Rightarrow> nat \<times> nat \<Rightarrow> HashJoin \<Rightarrow> (exception + bool) \<times> HashJoin" where
  "addJoinedBlock_loop X check_limits n all_key_columns stored_block [] d save_a_nullmap
     totals join =
     (check (size_limits join) (fst totals) (snd totals) SET_SIZE_LIMIT_EXCEEDED,
      (if save_a_nullmap
       then join\<lparr>blocks_nullmaps := blocks_nullmaps join
              @ [(stored_block, snd (extractNestedColumnsAndNullMap all_key_columns))]\<rparr>
       else join))"
| "addJoinedBlock_loop X check_limits n all_key_columns stored_block (ind # indexes) d
     save_a_nullmap totals join =
     (case extractNestedColumnsAndNullMap (map (\<lambda>i. all_key_columns ! i) ind) of
        (key_columns, null_map) \<Rightarrow>
          (let save_nullmap =
                 (isRightOrFull (kind join)
                  \<and> (case null_map of None \<Rightarrow> False | Some m \<Rightarrow> True \<in> set m))
           in if storage_join_locked join then (Inl (Exception LOGICAL_ERROR), join)
              else
                (case insert_disjunct X join d n key_columns stored_block null_map of
                   Inl (e, join') \<Rightarrow> (Inl e, join')
                 | Inr join' \<Rightarrow>
                     if \<not> check_limits then (Inr True, join')
                     else addJoinedBlock_loop X check_limits n all_key_columns stored_block
                            indexes (Suc d) (save_a_nullmap \<or> save_nullmap)
                            (getTotalRowCount X join', getTotalByteCount X join') join')))"

text \<open>
  \<^verbatim>\<open>HashJoin::addJoinedBlock(source_block, check_limits)\<close>. The result is what the
  call returns or throws, with the state the call leaves. \<^verbatim>\<open>RowRef::SizeT\<close> is
  \<^verbatim>\<open>uint32_t\<close>, whose maximum is \<open>2 ^ 32 - 1\<close>. \<^verbatim>\<open>materializeBlock\<close> changes nothing
  here, where every column is a full column.
\<close>

definition addJoinedBlock ::
  "HashTable \<Rightarrow> HashJoin \<Rightarrow> Block \<Rightarrow> bool \<Rightarrow> (exception + bool) \<times> HashJoin" where
  "addJoinedBlock X join source_block check_limits =
     (if empty join then (Inl (Exception LOGICAL_ERROR), join)
      else if overDictionary join then (Inl (Exception LOGICAL_ERROR), join)
      else if rows source_block > 4294967295 then (Inl (Exception NOT_IMPLEMENTED), join)
      else
        (let n = rows source_block in
         case key_names_right_indexes (key_names_right join) of
           (all_key_names_right, indexes) \<Rightarrow>
             (case getColumns source_block all_key_names_right of
                Inl e \<Rightarrow> (Inl e, join)
              | Inr all_key_columns \<Rightarrow>
                  (case structureRightBlock join source_block of
                     Inl e \<Rightarrow> (Inl e, join)
                   | Inr structured_block \<Rightarrow>
                       addJoinedBlock_loop X check_limits n all_key_columns
                         (length (blocks join)) indexes 0 False (0, 0)
                         (join\<lparr>blocks := blocks join
                                 @ [if nullable_right_side join
                                       \<and> 1 < length (key_names_right join)
                                    then convertColumnsToNullable structured_block
                                    else structured_block],
                               data_empty := (if n \<noteq> 0 then False else data_empty join)\<rparr>)))))"

text \<open>
  A run of \<^verbatim>\<open>addJoinedBlock\<close> calls on one instance, each with its block and its
  \<^verbatim>\<open>check_limits\<close>; a call that throws leaves the state it reached. \<open>ingested_rows\<close>
  counts the rows of the source blocks that the calls of the run stored in
  \<^verbatim>\<open>data->blocks\<close>.
\<close>

fun addJoinedBlocks :: "HashTable \<Rightarrow> HashJoin \<Rightarrow> (Block \<times> bool) list \<Rightarrow> HashJoin" where
  "addJoinedBlocks X join [] = join"
| "addJoinedBlocks X join ((source_block, check_limits) # calls) =
     addJoinedBlocks X (snd (addJoinedBlock X join source_block check_limits)) calls"

fun ingested_rows :: "HashTable \<Rightarrow> HashJoin \<Rightarrow> (Block \<times> bool) list \<Rightarrow> nat" where
  "ingested_rows X join [] = 0"
| "ingested_rows X join ((source_block, check_limits) # calls) =
     (if blocks (snd (addJoinedBlock X join source_block check_limits)) = blocks join then 0
      else rows source_block)
     + ingested_rows X (snd (addJoinedBlock X join source_block check_limits)) calls"

section \<open>Example instances\<close>

text \<open>
  A hash table library for the examples, in a build that checks assertions: every
  buffer has 256 cells, the cell of a key
  is its position in the map plus one (cell 0 is the zero storage), a map counts its
  keys, and sizes in bytes are not measured.
\<close>

definition example_hash_table :: HashTable where
  "example_hash_table =
     \<lparr>assertions = True,
      bytes = (\<lambda>block. 0),
      getBufferSizeInCells = (\<lambda>m. 256),
      offsetInternal = (\<lambda>m key. case find_position (map fst m) key of
                                   None \<Rightarrow> 0 | Some pos \<Rightarrow> Suc pos),
      getTotalRowCountImpl = length,
      getTotalByteCountImpl = (\<lambda>m. 0),
      pool_size = (\<lambda>ms. 0)\<rparr>"

text \<open>
  A new instance over a right table with the integer columns \<open>a\<close>, \<open>b\<close> and the string
  column \<open>v\<close>, for the given kind, strictness, answers of \<^verbatim>\<open>MapGetter\<close> and key
  names. Its maps are empty, one per disjunct, and nothing is ingested. The columns to
  add are the columns that are no keys, and all columns with several disjuncts, as the
  constructor has it.
\<close>

definition example_join ::
  "Kind \<Rightarrow> Strictness \<Rightarrow> bool \<Rightarrow> bool \<Rightarrow> string list list \<Rightarrow> HashJoin" where
  "example_join k s is_flagged is_mapped_one key_names =
     \<lparr>kind = k, strictness = s,
      key_names_right = key_names, key_names_left = key_names,
      nullable_right_side = False, nullable_left_side = False,
      any_take_last_row = False, flagged = is_flagged, mapped_one = is_mapped_one,
      size_limits = \<lparr>max_rows = 0, max_bytes = 0, overflow_throw = True\<rparr>,
      max_joined_block_rows = 65536, storage_join_locked = False,
      sample_block_with_columns_to_add =
        filter (\<lambda>c. 1 < length key_names \<or> name c \<notin> set (concat key_names))
          [\<lparr>column = [], column_type = TypeInt64, name = ''a''\<rparr>,
           \<lparr>column = [], column_type = TypeInt64, name = ''b''\<rparr>,
           \<lparr>column = [], column_type = TypeString, name = ''v''\<rparr>],
      saved_block_sample =
        [\<lparr>column = [], column_type = TypeInt64, name = ''a''\<rparr>,
         \<lparr>column = [], column_type = TypeInt64, name = ''b''\<rparr>,
         \<lparr>column = [], column_type = TypeString, name = ''v''\<rparr>],
      key_sizes = map (map (\<lambda>n. 8)) key_names,
      data_type = key64, data_empty = True, blocks = [], blocks_nullmaps = [],
      maps = map (\<lambda>names. []) key_names,
      used_flags = \<lparr>need_flags = False, flags = []\<rparr>\<rparr>"

text \<open>The right rows of scenario S6, \<open>(a=1, b=2, v="p")\<close> and \<open>(a=3, b=2, v="q")\<close>.\<close>

definition S6_right_block :: Block where
  "S6_right_block =
     [\<lparr>column = [IntField 1, IntField 3], column_type = TypeInt64, name = ''a''\<rparr>,
      \<lparr>column = [IntField 2, IntField 2], column_type = TypeInt64, name = ''b''\<rparr>,
      \<lparr>column = [StrField ''p'', StrField ''q''], column_type = TypeString, name = ''v''\<rparr>]"

text \<open>A block of one column of \<open>2 ^ 32\<close> rows, one more than \<^verbatim>\<open>uint32_t\<close> counts.\<close>

definition oversized_block :: Block where
  "oversized_block =
     [\<lparr>column = replicate 4294967296 (IntField 0), column_type = TypeInt64, name = ''a''\<rparr>]"

lemmas example_simps =
  example_hash_table_def example_join_def S6_right_block_def
  addJoinedBlock_def empty_def overDictionary_def rows_def key_names_right_indexes_def
  getByName_def findByName_def structureRightBlock_def isNullable_def
  extractNestedColumnsAndNullMap_def isRightOrFull_def isInnerOrRight_def
  insertFromBlockImpl_def insertFromBlockImplTypeCase_def insertRow_def is_null_at_def
  createKeyGetter_def getKey_def insertAll_def insertOne_def insertAsof_def reinit_def
  insert_disjunct_def
  getTotalRowCount_def getTotalByteCount_def check_def getNullMapData_def
  convertColumnToNullable_def convertColumnsToNullable_def or_null_map_def
  upt_conv_Cons Let_def

text \<open>The nine map variants, as opposed to the three sentinel tags.\<close>

definition map_variant :: "Type \<Rightarrow> bool" where
  "map_variant t = (t \<noteq> EMPTY \<and> t \<noteq> CROSS \<and> t \<noteq> DICT)"

section \<open>The probe\<close>

subsection \<open>Used flags\<close>

text \<open>
  \<^verbatim>\<open>JoinUsedFlags::setUsed<use_flags>\<close>, \<^verbatim>\<open>getUsed<use_flags>\<close> and
  \<^verbatim>\<open>setUsedOnce<use_flags>\<close> on the vector of flags. One prober is modelled, so the
  compare-and-swap of \<^verbatim>\<open>setUsedOnce\<close> succeeds whenever the flag was clear.
  \<^verbatim>\<open>flags[i]\<close> is not range-checked; an access outside the vector is undefined
  behaviour. The state of the flags is therefore \<open>Some\<close> of the vector or \<open>None\<close>,
  once an access was out of range, and it stays \<open>None\<close>; what the functions return
  then is arbitrary, and the probe ends in \<open>UndefinedBehaviour\<close>.
\<close>

definition setUsed :: "bool \<Rightarrow> nat \<Rightarrow> bool list option \<Rightarrow> bool list option" where
  "setUsed use_flags i fl =
     (if \<not> use_flags then fl
      else (case fl of
              None \<Rightarrow> None
            | Some f \<Rightarrow> if i < length f then Some (f[i := True]) else None))"

definition getUsed :: "bool \<Rightarrow> nat \<Rightarrow> bool list option \<Rightarrow> bool option" where
  "getUsed use_flags i fl =
     (if \<not> use_flags then Some True
      else (case fl of
              None \<Rightarrow> None
            | Some f \<Rightarrow> if i < length f then Some (f ! i) else None))"

definition setUsedOnce :: "bool \<Rightarrow> nat \<Rightarrow> bool list option \<Rightarrow> bool \<times> bool list option" where
  "setUsedOnce use_flags i fl =
     (if \<not> use_flags then (True, fl)
      else (case fl of
              None \<Rightarrow> (False, None)
            | Some f \<Rightarrow>
                if \<not> i < length f then (False, None)
                else if f ! i then (False, fl)
                else (True, Some (f[i := True]))))"

subsection \<open>Known rows\<close>

text \<open>
  \<^verbatim>\<open>KnownRowsHolder<true>\<close>: the block pointers already seen for the current left
  row, in the array \<open>linh\<close> of \<^verbatim>\<open>MAX_LINEAR\<close> = 16 entries while they fit and in the
  set \<open>logh\<close> afterwards. \<open>linh\<close> holds the \<open>items\<close> entries written so far.
  \<^verbatim>\<open>KnownRowsHolder<false>\<close>, of a join with one disjunct, knows nothing; the first
  argument of \<open>add\<close> and \<open>isKnown\<close> is the template argument.
\<close>

record KnownRowsHolder =
  linh :: "nat list"
  logh :: "nat list"
  items :: nat

definition KnownRowsHolder_new :: KnownRowsHolder where
  "KnownRowsHolder_new = \<lparr>linh = [], logh = [], items = 0\<rparr>"

definition add :: "bool \<Rightarrow> nat list \<Rightarrow> KnownRowsHolder \<Rightarrow> KnownRowsHolder" where
  "add multiple_disjuncts ptrs known =
     (if \<not> multiple_disjuncts then known
      else if items known + length ptrs \<le> 16
        then known\<lparr>linh := take (items known) (linh known) @ ptrs,
                   items := items known + length ptrs\<rparr>
      else known\<lparr>logh := (if items known \<le> 16 then take (items known) (linh known)
                            else logh known) @ ptrs,
                 items := items known + length ptrs\<rparr>)"

definition isKnown :: "bool \<Rightarrow> KnownRowsHolder \<Rightarrow> nat \<Rightarrow> bool" where
  "isKnown multiple_disjuncts known ptr =
     (multiple_disjuncts
      \<and> (if items known \<le> 16 then ptr \<in> set (take (items known) (linh known))
         else ptr \<in> set (logh known)))"

subsection \<open>Added columns\<close>

text \<open>
  The state of \<^verbatim>\<open>joinRightColumns\<close>. Every column of \<^verbatim>\<open>AddedColumns\<close> grows by
  one cell at each \<^verbatim>\<open>appendFromBlock\<close> and at each applied default, all from the same
  row of the same right block, so the model keeps the rows appended, \<open>Some (block, row)\<close>
  or \<open>None\<close> for a default row, and fills the cells in at \<^verbatim>\<open>moveColumn\<close>.
\<close>

record Probe =
  appended :: "RowRef option list"
  lazy_defaults_count :: nat
  current_offset :: nat
  offsets_to_replicate :: "nat list"
  row_filter :: "bool list"
  probe_flags :: "bool list option"

definition applyLazyDefaults :: "Probe \<Rightarrow> Probe" where
  "applyLazyDefaults p =
     (if lazy_defaults_count p \<noteq> 0
      then p\<lparr>appended := appended p @ replicate (lazy_defaults_count p) None,
             lazy_defaults_count := 0\<rparr>
      else p)"

definition appendFromBlock :: "bool \<Rightarrow> RowRef \<Rightarrow> Probe \<Rightarrow> Probe" where
  "appendFromBlock has_defaults r p =
     (let p' = (if has_defaults then applyLazyDefaults p else p)
      in p'\<lparr>appended := appended p' @ [Some r]\<rparr>)"

definition appendDefaultRow :: "Probe \<Rightarrow> Probe" where
  "appendDefaultRow p = p\<lparr>lazy_defaults_count := Suc (lazy_defaults_count p)\<rparr>"

definition addNotFoundRow :: "bool \<Rightarrow> bool \<Rightarrow> Probe \<Rightarrow> Probe" where
  "addNotFoundRow add_missing need_offset p =
     (if add_missing then
        (let p' = appendDefaultRow p
         in if need_offset then p'\<lparr>current_offset := Suc (current_offset p')\<rparr> else p')
      else p)"

text \<open>The free function \<^verbatim>\<open>setUsed<need_filter>(filter, pos)\<close>.\<close>

definition setUsed_filter :: "bool \<Rightarrow> nat \<Rightarrow> Probe \<Rightarrow> Probe" where
  "setUsed_filter need_filter pos p =
     (if need_filter then p\<lparr>row_filter := (row_filter p)[pos := True]\<rparr> else p)"

text \<open>
  \<^verbatim>\<open>addFoundRowAll\<close>: the loop over the chain appends every row whose block is not
  known and remembers the block of the first row it appends; \<^verbatim>\<open>known_rows\<close> itself
  changes only after the loop.
\<close>

fun addFoundRowAll_loop ::
  "bool \<Rightarrow> KnownRowsHolder \<Rightarrow> Mapped \<Rightarrow> nat list option \<Rightarrow> Probe \<Rightarrow> nat list option \<times> Probe" where
  "addFoundRowAll_loop multiple_disjuncts known [] new_known_rows p = (new_known_rows, p)"
| "addFoundRowAll_loop multiple_disjuncts known (r # rs) new_known_rows p =
     (if \<not> isKnown multiple_disjuncts known (fst r) then
        addFoundRowAll_loop multiple_disjuncts known rs
          (if multiple_disjuncts \<and> new_known_rows = None then Some [fst r] else new_known_rows)
          ((appendFromBlock False r p)\<lparr>current_offset := Suc (current_offset p)\<rparr>)
      else addFoundRowAll_loop multiple_disjuncts known rs new_known_rows p)"

definition addFoundRowAll ::
  "bool \<Rightarrow> bool \<Rightarrow> Mapped \<Rightarrow> KnownRowsHolder \<Rightarrow> Probe \<Rightarrow> KnownRowsHolder \<times> Probe" where
  "addFoundRowAll multiple_disjuncts add_missing mapped known p =
     (case addFoundRowAll_loop multiple_disjuncts known mapped None
             (if add_missing then applyLazyDefaults p else p) of
        (new_known_rows, p') \<Rightarrow>
          (case new_known_rows of
             None \<Rightarrow> (known, p')
           | Some ptrs \<Rightarrow> (add multiple_disjuncts ptrs known, p')))"

subsection \<open>joinRightColumns\<close>

text \<open>\<^verbatim>\<open>JoinFeatures<KIND, STRICTNESS>\<close>.\<close>

definition need_replication :: "Kind \<Rightarrow> Strictness \<Rightarrow> bool" where
  "need_replication k s = (s = All' \<or> (s = Any \<and> k = Right) \<or> (s = Semi \<and> k = Right))"

definition need_filter :: "Kind \<Rightarrow> Strictness \<Rightarrow> bool" where
  "need_filter k s =
     (\<not> need_replication k s
      \<and> (k = Inner \<or> k = Right \<or> (s = Semi \<and> k = Left) \<or> (s = Anti \<and> k = Left)))"

definition add_missing :: "Kind \<Rightarrow> Strictness \<Rightarrow> bool" where
  "add_missing k s = ((k = Left \<or> k = Full) \<and> s \<noteq> Semi)"

text \<open>
  What an instantiation of \<^verbatim>\<open>joinRightColumns\<close> is given: the template arguments
  \<^verbatim>\<open>KIND\<close> and \<^verbatim>\<open>STRICTNESS\<close>, \<^verbatim>\<open>need_flags\<close> (the answer of \<^verbatim>\<open>MapGetter\<close> for
  them) and \<^verbatim>\<open>multiple_disjuncts\<close>; for each disjunct and left row the result of
  \<^verbatim>\<open>findKey\<close>, \<open>None\<close> when not found and the mapped value with its offset otherwise;
  \<^verbatim>\<open>findAsof\<close> on a mapped value for a left row (\<^verbatim>\<open>AsofRowRefs\<close> is outside the source
  files); the null maps of the left keys and the number of disjuncts. The template
  arguments \<^verbatim>\<open>need_filter\<close> and \<^verbatim>\<open>has_null_map\<close> are not among them:
  \<^verbatim>\<open>joinRightColumnsSwitchMultipleDisjuncts\<close> passes \<^verbatim>\<open>true\<close> for both.
\<close>

record JoinRightColumns =
  KIND :: Kind
  STRICTNESS :: Strictness
  use_flags :: bool
  multiple_disjuncts :: bool
  findKey :: "nat \<Rightarrow> nat \<Rightarrow> (Mapped \<times> nat) option"
  findAsof :: "Mapped \<Rightarrow> nat \<Rightarrow> RowRef option"
  null_maps :: "bool list option list"
  disjunct_num :: nat

text \<open>
  What the loop over the disjuncts carries for one left row: \<^verbatim>\<open>right_row_found\<close>,
  \<^verbatim>\<open>null_element_found\<close>, \<^verbatim>\<open>known_rows\<close> and the state of the probe.
\<close>

record RowProbe =
  right_row_found :: bool
  null_element_found :: bool
  known_rows :: KnownRowsHolder
  probe :: Probe

text \<open>
  The body of the \<^verbatim>\<open>do ... while\<close> loop for a key that was found. The result says
  whether the body ends in \<^verbatim>\<open>break\<close>. A mapped \<^verbatim>\<open>RowRef\<close> is the head of the list
  (a key of a map is bound to at least one row).
\<close>

definition found_row :: "JoinRightColumns \<Rightarrow> nat \<Rightarrow> Mapped \<Rightarrow> nat \<Rightarrow> RowProbe \<Rightarrow> bool \<times> RowProbe" where
  "found_row J i mapped offset rp0 =
     (let k = KIND J; s = STRICTNESS J;
          rp = rp0\<lparr>right_row_found := True\<rparr>;
          p = probe rp
      in if s = Asof then
           (case findAsof J mapped i of
              Some found \<Rightarrow>
                (False, rp\<lparr>probe :=
                   appendFromBlock (add_missing k s) found
                     ((setUsed_filter True i p)
                        \<lparr>probe_flags := setUsed (use_flags J) offset (probe_flags p)\<rparr>)\<rparr>)
            | None \<Rightarrow>
                (False, rp\<lparr>probe := addNotFoundRow (add_missing k s) (need_replication k s) p\<rparr>))
         else if s = All' then
           (case addFoundRowAll (multiple_disjuncts J) (add_missing k s) mapped (known_rows rp)
                   ((setUsed_filter True i p)
                      \<lparr>probe_flags := setUsed (use_flags J) offset (probe_flags p)\<rparr>) of
              (known', p') \<Rightarrow> (False, rp\<lparr>known_rows := known', probe := p'\<rparr>))
         else if (s = Any \<or> s = Semi) \<and> k = Right then
           (case setUsedOnce (use_flags J) offset (probe_flags p) of
              (used_once, fl) \<Rightarrow>
                if used_once then
                  (case addFoundRowAll (multiple_disjuncts J) (add_missing k s) mapped
                          (known_rows rp) (setUsed_filter True i (p\<lparr>probe_flags := fl\<rparr>)) of
                     (known', p') \<Rightarrow> (False, rp\<lparr>known_rows := known', probe := p'\<rparr>))
                else (False, rp\<lparr>probe := p\<lparr>probe_flags := fl\<rparr>\<rparr>))
         else if s = Any \<and> k = Inner then
           (case setUsedOnce (use_flags J) offset (probe_flags p) of
              (used_once, fl) \<Rightarrow>
                if used_once then
                  (True, rp\<lparr>probe :=
                     appendFromBlock (add_missing k s) (hd mapped)
                       (setUsed_filter True i (p\<lparr>probe_flags := fl\<rparr>))\<rparr>)
                else (True, rp\<lparr>probe := p\<lparr>probe_flags := fl\<rparr>\<rparr>))
         else if s = Any \<and> k = Full then (False, rp)
         else if s = Anti then
           (if k = Right \<and> use_flags J
            then (False, rp\<lparr>probe := p\<lparr>probe_flags := setUsed (use_flags J) offset (probe_flags p)\<rparr>\<rparr>)
            else (False, rp))
         else
           (s = Any, rp\<lparr>probe :=
              appendFromBlock (add_missing k s) (hd mapped)
                ((setUsed_filter True i p)
                   \<lparr>probe_flags := setUsed (use_flags J) offset (probe_flags p)\<rparr>)\<rparr>))"

text \<open>
  The \<^verbatim>\<open>do ... while (multiple_disjuncts && ++d < disjunct_num)\<close> loop for left row
  \<open>i\<close>, over the disjuncts \<open>ds\<close> still to do. A null key and a key not found go on
  to the next disjunct (\<^verbatim>\<open>continue\<close>).
\<close>

fun disjuncts_loop :: "JoinRightColumns \<Rightarrow> nat \<Rightarrow> nat list \<Rightarrow> RowProbe \<Rightarrow> RowProbe" where
  "disjuncts_loop J i [] rp = rp"
| "disjuncts_loop J i (d # ds) rp =
     (if is_null_at (null_maps J ! d) i
      then disjuncts_loop J i ds (rp\<lparr>null_element_found := True\<rparr>)
      else
        (case findKey J d i of
           None \<Rightarrow> disjuncts_loop J i ds rp
         | Some (mapped, offset) \<Rightarrow>
             (case found_row J i mapped offset rp of
                (break, rp') \<Rightarrow> if break then rp' else disjuncts_loop J i ds rp')))"

text \<open>
  The disjuncts the loop visits unless it breaks: disjunct 0 always (the body of a
  \<^verbatim>\<open>do ... while\<close> runs once before the test), the others with several disjuncts.
\<close>

definition disjuncts :: "JoinRightColumns \<Rightarrow> nat list" where
  "disjuncts J = 0 # (if multiple_disjuncts J then [1..<disjunct_num J] else [])"

text \<open>The body of the loop over the left rows, for row \<open>i\<close>.\<close>

definition joinRightColumns_row :: "JoinRightColumns \<Rightarrow> nat \<Rightarrow> Probe \<Rightarrow> Probe" where
  "joinRightColumns_row J i p =
     (let k = KIND J; s = STRICTNESS J;
          rp = disjuncts_loop J i (disjuncts J)
                 \<lparr>right_row_found = False, null_element_found = False,
                  known_rows = KnownRowsHolder_new, probe = p\<rparr>;
          p1 = probe rp;
          p2 = (if \<not> right_row_found rp \<and> null_element_found rp
                then addNotFoundRow (add_missing k s) (need_replication k s) p1
                else if \<not> right_row_found rp
                then addNotFoundRow (add_missing k s) (need_replication k s)
                       (if s = Anti \<and> k = Left then setUsed_filter True i p1 else p1)
                else p1)
      in if need_replication k s
         then p2\<lparr>offsets_to_replicate := (offsets_to_replicate p2)[i := current_offset p2]\<rparr>
         else p2)"

text \<open>
  \<^verbatim>\<open>joinRightColumns\<close> for a left block of \<open>n\<close> rows, from the used flags \<open>fl\<close>: the
  filter starts all zero, the offsets are allocated when the shape replicates, and the
  pending default rows are applied at the end.
\<close>

definition joinRightColumns :: "JoinRightColumns \<Rightarrow> nat \<Rightarrow> bool list option \<Rightarrow> Probe" where
  "joinRightColumns J n fl =
     applyLazyDefaults
       (fold (joinRightColumns_row J) [0..<n]
          \<lparr>appended = [], lazy_defaults_count = 0, current_offset = 0,
           offsets_to_replicate =
             (if need_replication (KIND J) (STRICTNESS J) then replicate n 0 else []),
           row_filter = replicate n False,
           probe_flags = fl\<rparr>)"

subsection \<open>makeAddedColumns and joinBlockImpl\<close>

text \<open>
  The left key columns of every disjunct (\<^verbatim>\<open>JoinCommon::materializeColumns\<close>) with
  their nested columns and null maps.
\<close>

fun left_key_columns ::
  "Block \<Rightarrow> string list list \<Rightarrow> exception + (Field list list \<times> bool list option) list" where
  "left_key_columns block [] = Inr []"
| "left_key_columns block (names # rest) =
     (case getColumns block names of
        Inl e \<Rightarrow> Inl e
      | Inr cs \<Rightarrow>
          (case left_key_columns block rest of
             Inl e \<Rightarrow> Inl e
           | Inr keys \<Rightarrow> Inr (extractNestedColumnsAndNullMap cs # keys)))"

text \<open>
  The constructor of \<^verbatim>\<open>AddedColumns\<close>: a column of \<^verbatim>\<open>block_with_columns_to_add\<close> is
  added unless the left block has a column of its name, and \<^verbatim>\<open>right_indexes\<close> are
  the positions of the added columns in the saved sample
  (\<^verbatim>\<open>getPositionByName\<close> throws for a name the sample does not have).
  Modelled from the spec: \<^verbatim>\<open>rightAsofKeyColumn\<close> is outside the source files; by
  section 4.6 the right ASOF column is added for an ASOF join, and it is the last key of
  the first disjunct, as elsewhere in \<^verbatim>\<open>HashJoin.cpp\<close>.
\<close>

definition columns_to_add :: "HashJoin \<Rightarrow> Strictness \<Rightarrow> Block \<Rightarrow> (DataType \<times> string) list" where
  "columns_to_add join s block =
     map (\<lambda>c. (column_type c, name c))
       (filter (\<lambda>c. findByName block (name c) = None) (sample_block_with_columns_to_add join)
        @ (if s = Asof
           then (case key_names_right join of
                   [] \<Rightarrow> []
                 | names # rest \<Rightarrow>
                     (case findByName (saved_block_sample join) (last names) of
                        None \<Rightarrow> [] | Some c \<Rightarrow> [c]))
           else []))"

fun getPositionsByName :: "Block \<Rightarrow> string list \<Rightarrow> exception + nat list" where
  "getPositionsByName sample [] = Inr []"
| "getPositionsByName sample (n # ns) =
     (case find_position (map name sample) n of
        None \<Rightarrow> Inl NOT_FOUND_COLUMN_IN_BLOCK
      | Some pos \<Rightarrow>
          (case getPositionsByName sample ns of
             Inl e \<Rightarrow> Inl e
           | Inr ps \<Rightarrow> Inr (pos # ps)))"

text \<open>
  \<^verbatim>\<open>moveColumn(j)\<close>: the added column \<open>j\<close>, each cell read from the right block and
  row it was appended from, at the position \<^verbatim>\<open>right_indexes[j]\<close>, or the default of
  the type for a default row. \<open>right_blocks\<close> is what the block pointers point into.
\<close>

definition moveColumn ::
  "Block list \<Rightarrow> RowRef option list \<Rightarrow> DataType \<times> string \<Rightarrow> nat \<Rightarrow> ColumnWithTypeAndName" where
  "moveColumn right_blocks rs type_name right_index =
     \<lparr>column = map (\<lambda>r. case r of
                          None \<Rightarrow> getDefault (fst type_name)
                        | Some (b, row) \<Rightarrow> column (right_blocks ! b ! right_index) ! row) rs,
      column_type = fst type_name,
      name = snd type_name\<rparr>"

text \<open>\<^verbatim>\<open>IColumn::filter\<close> and \<^verbatim>\<open>IColumn::replicate\<close> on the cells of a column.\<close>

definition filter_column :: "bool list \<Rightarrow> ColumnWithTypeAndName \<Rightarrow> ColumnWithTypeAndName" where
  "filter_column flt c = c\<lparr>column := map fst (filter snd (zip (column c) flt))\<rparr>"

definition replicate_column :: "nat list \<Rightarrow> ColumnWithTypeAndName \<Rightarrow> ColumnWithTypeAndName" where
  "replicate_column offsets c =
     c\<lparr>column := concat (map (\<lambda>i. replicate (offsets ! i - (if i = 0 then 0 else offsets ! (i - 1)))
                                      (column c ! i))
                          [0..<length (column c)])\<rparr>"

text \<open>
  \<^verbatim>\<open>joinBlockImpl<KIND, STRICTNESS>\<close> on the left block and the added columns of the
  probe \<open>p\<close>, for an instance that has no required right keys (as is every instance of
  several disjuncts): the left columns are filtered by the row filter when the shape
  filters and replicated by the offsets when it replicates; the added columns, which
  \<^verbatim>\<open>makeAddedColumns\<close> has put behind the left columns, stay as they are.
\<close>

definition joinBlockImpl ::
  "Kind \<Rightarrow> Strictness \<Rightarrow> Block \<Rightarrow> Probe \<Rightarrow> Block \<Rightarrow> Block" where
  "joinBlockImpl k s block p added =
     (let filtered = (if need_filter k s then map (filter_column (row_filter p)) block
                      else block);
          replicated = (if need_replication k s
                        then map (replicate_column (offsets_to_replicate p)) filtered
                        else filtered)
      in replicated @ added)"

subsection \<open>The cross join\<close>

record NotProcessedCrossJoin =
  not_processed_block :: Block
  left_position :: nat
  right_block :: nat

text \<open>
  The inner loop of \<^verbatim>\<open>joinBlockImplCross\<close>, over the right blocks, for one left row
  whose cells are \<open>left_cells\<close>. It carries \<^verbatim>\<open>block_number\<close>, \<^verbatim>\<open>rows_added\<close> and
  the destination columns, the left ones first.
\<close>

fun cross_right_blocks ::
  "nat \<Rightarrow> Field list \<Rightarrow> nat \<Rightarrow> Block list \<Rightarrow> nat \<Rightarrow> nat \<Rightarrow> Field list list
   \<Rightarrow> nat \<times> nat \<times> Field list list" where
  "cross_right_blocks start_right_block left_cells num_columns_to_add [] block_number
     rows_added dst_columns = (block_number, rows_added, dst_columns)"
| "cross_right_blocks start_right_block left_cells num_columns_to_add (block_right # rest)
     block_number rows_added dst_columns =
     (if Suc block_number < start_right_block
      then cross_right_blocks start_right_block left_cells num_columns_to_add rest
             (Suc block_number) rows_added dst_columns
      else
        (let rows_right = rows block_right;
             num_existing_columns = length left_cells
         in cross_right_blocks start_right_block left_cells num_columns_to_add rest
              (Suc block_number) (rows_added + rows_right)
              (map (\<lambda>col_num.
                      if col_num < num_existing_columns
                      then dst_columns ! col_num @ replicate rows_right (left_cells ! col_num)
                      else dst_columns ! col_num
                           @ take rows_right
                               (column (block_right ! (col_num - num_existing_columns))))
                 [0..<num_existing_columns + num_columns_to_add])))"

text \<open>
  The outer loop, over the left rows still to do. The cap is tested after the right
  blocks of a left row; the \<^verbatim>\<open>break\<close> returns that left row and
  \<^verbatim>\<open>block_number + 1\<close> for the continuation.
\<close>

fun cross_left_rows ::
  "nat \<Rightarrow> Block \<Rightarrow> nat \<Rightarrow> Block list \<Rightarrow> nat list \<Rightarrow> nat \<Rightarrow> nat \<Rightarrow> Field list list
   \<Rightarrow> (nat \<times> nat) option \<times> Field list list" where
  "cross_left_rows cap block num_columns_to_add right_blocks [] start_right_block rows_added
     dst_columns = (None, dst_columns)"
| "cross_left_rows cap block num_columns_to_add right_blocks (left_row # rest)
     start_right_block rows_added dst_columns =
     (case cross_right_blocks start_right_block (map (\<lambda>c. column c ! left_row) block)
             num_columns_to_add right_blocks 0 rows_added dst_columns of
        (block_number, rows_added', dst_columns') \<Rightarrow>
          if cap < rows_added' then (Some (left_row, block_number + 1), dst_columns')
          else cross_left_rows cap block num_columns_to_add right_blocks rest 0 rows_added'
                 dst_columns')"

text \<open>
  \<^verbatim>\<open>HashJoin::joinBlockImplCross(block, not_processed)\<close>: the joined block and the
  continuation. A continuation keeps the left block, which the caller passes again.
\<close>

definition joinBlockImplCross ::
  "HashJoin \<Rightarrow> Block \<Rightarrow> NotProcessedCrossJoin option \<Rightarrow> Block \<times> NotProcessedCrossJoin option" where
  "joinBlockImplCross join block not_processed =
     (let start_left_row = (case not_processed of None \<Rightarrow> 0 | Some c \<Rightarrow> left_position c);
          start_right_block = (case not_processed of None \<Rightarrow> 0 | Some c \<Rightarrow> right_block c);
          to_add = sample_block_with_columns_to_add join
      in case cross_left_rows (max_joined_block_rows join) block (length to_add) (blocks join)
                [start_left_row..<rows block] start_right_block 0
                (replicate (length block + length to_add) []) of
           (continuation, dst_columns) \<Rightarrow>
             (map2 (\<lambda>c cells. c\<lparr>column := cells\<rparr>) (block @ to_add) dst_columns,
              map_option (\<lambda>(left_row, block_number).
                  \<lparr>not_processed_block = block, left_position = left_row,
                   right_block = block_number\<rparr>) continuation))"

subsection \<open>joinBlock\<close>

text \<open>
  The dictionary reader of a dictionary-backed instance, which is injected: for the left
  key column it gives the block read, the found mask and the row positions.
  \<^verbatim>\<open>KeyGetterForDict::findKey\<close> finds row \<open>positions[row]\<close> of that block when
  \<open>found[row]\<close> is set, at offset 0.
\<close>

type_synonym DictionaryReader = "Field list \<Rightarrow> Block \<times> bool list \<times> nat list"

definition KeyGetterForDict_findKey ::
  "bool list \<times> nat list \<Rightarrow> nat \<Rightarrow> nat \<Rightarrow> (Mapped \<times> nat) option" where
  "KeyGetterForDict_findKey read d row =
     (if fst read ! row then Some ([(0, snd read ! row)], 0) else None)"

text \<open>\<^verbatim>\<open>findKey\<close> of the key getter of disjunct \<open>d\<close> on the map of the disjunct.\<close>

definition findKey_in_maps ::
  "HashTable \<Rightarrow> HashJoin \<Rightarrow> Strictness \<Rightarrow> Field list list list \<Rightarrow> nat \<Rightarrow> nat
   \<Rightarrow> (Mapped \<times> nat) option" where
  "findKey_in_maps X join s key_columns d row =
     (let key = getKey (createKeyGetter (s = Asof) (key_columns ! d)) row in
      case map_of (maps join ! d) key of
        None \<Rightarrow> None
      | Some mapped \<Rightarrow> Some (mapped, offsetInternal X (maps join ! d) key))"

text \<open>
  \<^verbatim>\<open>dictionaryJoinRightColumns<KIND, STRICTNESS>\<close> runs the probe with the key getter
  of the dictionary for Left with Any, Semi or Anti and throws otherwise; its local used
  flags are empty and these instantiations do not use flags.
  \<^verbatim>\<open>switchJoinRightColumns\<close> runs the probe on the maps of the instance under a map
  variant tag and throws under a sentinel tag; \<open>probe_of\<close> is what it gives
  \<^verbatim>\<open>joinRightColumns\<close>. It returns the probe with the used flags it leaves.
\<close>

definition probe_of ::
  "HashTable \<Rightarrow> (Mapped \<Rightarrow> nat \<Rightarrow> RowRef option) \<Rightarrow> HashJoin \<Rightarrow> Kind \<Rightarrow> Strictness
   \<Rightarrow> (Field list list \<times> bool list option) list \<Rightarrow> JoinRightColumns" where
  "probe_of X find_asof join k s keys =
     \<lparr>KIND = k, STRICTNESS = s, use_flags = flagged join,
      multiple_disjuncts = (1 < length keys),
      findKey = findKey_in_maps X join s (map fst keys), findAsof = find_asof,
      null_maps = map snd keys, disjunct_num = length keys\<rparr>"

definition dictionaryJoinRightColumns ::
  "(Mapped \<Rightarrow> nat \<Rightarrow> RowRef option) \<Rightarrow> bool list \<times> nat list \<Rightarrow> Kind \<Rightarrow> Strictness
   \<Rightarrow> bool list option \<Rightarrow> nat \<Rightarrow> exception + Probe" where
  "dictionaryJoinRightColumns find_asof read k s null_map n =
     (if k = Left \<and> (s = Any \<or> s = Semi \<or> s = Anti) then
        Inr (joinRightColumns
               \<lparr>KIND = k, STRICTNESS = s, use_flags = False, multiple_disjuncts = False,
                findKey = KeyGetterForDict_findKey read, findAsof = find_asof,
                null_maps = [null_map], disjunct_num = 1\<rparr> n (Some []))
      else Inl (Exception LOGICAL_ERROR))"

definition switchJoinRightColumns ::
  "HashTable \<Rightarrow> (Mapped \<Rightarrow> nat \<Rightarrow> RowRef option) \<Rightarrow> HashJoin \<Rightarrow> Kind \<Rightarrow> Strictness
   \<Rightarrow> (Field list list \<times> bool list option) list \<Rightarrow> nat \<Rightarrow> exception + Probe \<times> bool list" where
  "switchJoinRightColumns X find_asof join k s keys n =
     (if map_variant (data_type join) then
        (let p = joinRightColumns (probe_of X find_asof join k s keys) n
                   (Some (flags (used_flags join)))
         in case probe_flags p of
              None \<Rightarrow> Inl UndefinedBehaviour
            | Some fl \<Rightarrow> Inr (p, fl))
      else Inl (Exception UNSUPPORTED_JOIN_KEYS))"

text \<open>
  \<^verbatim>\<open>makeAddedColumns<KIND, STRICTNESS>\<close> followed by \<^verbatim>\<open>joinBlockImpl\<close>: the left
  keys, the added columns and their positions, the probe through the dictionary or
  through the maps, and the joined block. The result carries the used flags the probe
  leaves. \<open>find_asof\<close> is \<^verbatim>\<open>findAsof\<close> of \<^verbatim>\<open>AsofRowRefs\<close>, \<open>reader\<close> the dictionary
  reader.
\<close>

definition makeAddedColumns ::
  "HashTable \<Rightarrow> (Mapped \<Rightarrow> nat \<Rightarrow> RowRef option) \<Rightarrow> DictionaryReader \<Rightarrow> HashJoin \<Rightarrow> Kind
   \<Rightarrow> Strictness \<Rightarrow> Block \<Rightarrow> exception + Block \<times> bool list" where
  "makeAddedColumns X find_asof reader join k s block =
     (case left_key_columns block (key_names_left join) of
        Inl e \<Rightarrow> Inl e
      | Inr keys \<Rightarrow>
          (case getPositionsByName (saved_block_sample join)
                  (map snd (columns_to_add join s block)) of
             Inl e \<Rightarrow> Inl e
           | Inr right_indexes \<Rightarrow>
               if overDictionary join then
                 (case reader (fst (keys ! 0) ! 0) of
                    (read_result, read) \<Rightarrow>
                      (case dictionaryJoinRightColumns find_asof read k s (snd (keys ! 0))
                              (rows block) of
                         Inl e \<Rightarrow> Inl e
                       | Inr p \<Rightarrow>
                           Inr (joinBlockImpl k s block p
                                  (map2 (moveColumn [read_result] (appended p))
                                     (columns_to_add join s block) right_indexes),
                                flags (used_flags join))))
               else
                 (case switchJoinRightColumns X find_asof join k s keys (rows block) of
                    Inl e \<Rightarrow> Inl e
                  | Inr (p, fl) \<Rightarrow>
                      Inr (joinBlockImpl k s block p
                             (map2 (moveColumn (blocks join) (appended p))
                                (columns_to_add join s block) right_indexes),
                           fl))))"

text \<open>
  The instantiation \<^verbatim>\<open>joinBlock\<close> picks for a dictionary-backed instance, or the
  logical error of a wrong combination.
\<close>

definition dictionary_instantiation :: "Kind \<Rightarrow> Strictness \<Rightarrow> exception + Kind \<times> Strictness" where
  "dictionary_instantiation k s =
     (if k = Left then
        (case s of
           Any \<Rightarrow> Inr (Left, Any)
         | All' \<Rightarrow> Inr (Left, Any)
         | Semi \<Rightarrow> Inr (Left, Semi)
         | Anti \<Rightarrow> Inr (Left, Anti)
         | _ \<Rightarrow> Inl (Exception LOGICAL_ERROR))
      else if k = Inner \<and> s = All' then Inr (Left, Semi)
      else Inl (Exception LOGICAL_ERROR))"

text \<open>
  \<^verbatim>\<open>HashJoin::joinBlock(block, not_processed)\<close>: what the call returns or throws, the
  continuation and the instance with its used flags. The types of the left and right
  keys are taken to agree (\<^verbatim>\<open>checkTypesOfKeys\<close> is outside the source files), and
  \<^verbatim>\<open>joinDispatch\<close> serves every kind but Cross, which is handled first.
\<close>

definition joinBlock ::
  "HashTable \<Rightarrow> (Mapped \<Rightarrow> nat \<Rightarrow> RowRef option) \<Rightarrow> DictionaryReader \<Rightarrow> HashJoin \<Rightarrow> Block
   \<Rightarrow> NotProcessedCrossJoin option
   \<Rightarrow> (exception + Block) \<times> NotProcessedCrossJoin option \<times> HashJoin" where
  "joinBlock X find_asof reader join block0 not_processed =
     (if kind join = Cross then
        (case joinBlockImplCross join block0 not_processed of
           (joined, continuation) \<Rightarrow> (Inr joined, continuation, join))
      else
        (let block = (if isRightOrFull (kind join) \<and> nullable_left_side join
                      then convertColumnsToNullable block0 else block0)
         in case (if overDictionary join
                  then dictionary_instantiation (kind join) (strictness join)
                  else Inr (kind join, strictness join)) of
              Inl e \<Rightarrow> (Inl e, not_processed, join)
            | Inr (k, s) \<Rightarrow>
                (case makeAddedColumns X find_asof reader join k s block of
                   Inl e \<Rightarrow> (Inl e, not_processed, join)
                 | Inr (joined, fl) \<Rightarrow>
                     (Inr joined, not_processed,
                      join\<lparr>used_flags := (used_flags join)\<lparr>flags := fl\<rparr>\<rparr>))))"

subsection \<open>The stream of non-joined rows\<close>

text \<open>
  A new \<^verbatim>\<open>NonJoinedBlockInputStream\<close>: its sample block and block size, with the
  two positions not yet set.
\<close>

record NonJoinedBlockInputStream =
  result_sample_block :: Block
  max_block_size :: nat
  position :: "nat option"
  nulls_position :: "nat option"

definition createStreamWithNonJoinedRows ::
  "HashJoin \<Rightarrow> Block \<Rightarrow> nat \<Rightarrow> NonJoinedBlockInputStream option" where
  "createStreamWithNonJoinedRows join sample size' =
     (if strictness join = Asof \<or> strictness join = Semi then None
      else if isRightOrFull (kind join)
        then Some \<lparr>result_sample_block = sample, max_block_size = size',
                   position = None, nulls_position = None\<rparr>
      else None)"

section \<open>Example probes\<close>

text \<open>
  The left row \<open>(a=1, b=2)\<close> of scenario S6; an ASOF lookup and a dictionary reader
  that find nothing, for joins that use neither; a dictionary reader over the right
  rows of S6 that finds key 1 at row 0; a dictionary-backed instance on key \<open>a\<close>.
\<close>

definition S6_left_block :: Block where
  "S6_left_block =
     [\<lparr>column = [IntField 1], column_type = TypeInt64, name = ''a''\<rparr>,
      \<lparr>column = [IntField 2], column_type = TypeInt64, name = ''b''\<rparr>]"

definition no_asof :: "Mapped \<Rightarrow> nat \<Rightarrow> RowRef option" where
  "no_asof mapped i = None"

definition no_dictionary :: DictionaryReader where
  "no_dictionary key = ([], [], [])"

definition example_dictionary :: DictionaryReader where
  "example_dictionary key = (S6_right_block, map (\<lambda>v. v = IntField 1) key, map (\<lambda>v. 0) key)"

definition dictionary_join :: "Kind \<Rightarrow> Strictness \<Rightarrow> HashJoin" where
  "dictionary_join k s = (example_join k s False True [[''a'']])\<lparr>data_type := DICT\<rparr>"

text \<open>
  A hash table library whose buffer grows with the keys it holds, 256 cells for each
  key, the key at position \<open>pos\<close> of the map being in cell \<open>256 * pos + 1\<close>; in a
  build with or without assertion checks. And the left row \<open>(a=3, b=7)\<close>, which matches
  the right row \<open>"q"\<close> of S6 on \<open>a\<close>.
\<close>

definition growing_hash_table :: "bool \<Rightarrow> HashTable" where
  "growing_hash_table checked =
     example_hash_table
       \<lparr>assertions := checked,
        getBufferSizeInCells := (\<lambda>m. 256 * length m),
        offsetInternal := (\<lambda>m key. case find_position (map fst m) key of
                                     None \<Rightarrow> 0 | Some pos \<Rightarrow> 256 * pos + 1)\<rparr>"

definition q_left_block :: Block where
  "q_left_block =
     [\<lparr>column = [IntField 3], column_type = TypeInt64, name = ''a''\<rparr>,
      \<lparr>column = [IntField 7], column_type = TypeInt64, name = ''b''\<rparr>]"

lemmas probe_simps =
  joinBlock_def makeAddedColumns_def switchJoinRightColumns_def dictionaryJoinRightColumns_def
  dictionary_instantiation_def joinBlockImpl_def joinRightColumns_def joinRightColumns_row_def
  disjuncts_def found_row_def addFoundRowAll_def add_def isKnown_def KnownRowsHolder_new_def
  setUsed_def setUsedOnce_def getUsed_def applyLazyDefaults_def appendFromBlock_def
  appendDefaultRow_def addNotFoundRow_def setUsed_filter_def need_replication_def
  need_filter_def add_missing_def columns_to_add_def moveColumn_def filter_column_def
  replicate_column_def findKey_in_maps_def KeyGetterForDict_findKey_def map_variant_def
  probe_of_def
  S6_left_block_def no_asof_def no_dictionary_def example_dictionary_def dictionary_join_def

text \<open>
  Scenario S7: a cross join over three right blocks of ten rows each with
  \<^verbatim>\<open>max_joined_block_rows\<close> = 17, a left block of five rows, and the continuation
  that a call leaves at a left row.
\<close>

definition S7_right_block :: Block where
  "S7_right_block =
     [\<lparr>column = replicate 10 (IntField 7), column_type = TypeInt64, name = ''a''\<rparr>,
      \<lparr>column = replicate 10 (IntField 8), column_type = TypeInt64, name = ''b''\<rparr>,
      \<lparr>column = replicate 10 (StrField ''r''), column_type = TypeString, name = ''v''\<rparr>]"

definition S7_join :: HashJoin where
  "S7_join = (example_join Cross All' False False [[]])
     \<lparr>max_joined_block_rows := 17, data_type := CROSS, data_empty := False,
      blocks := [S7_right_block, S7_right_block, S7_right_block]\<rparr>"

definition S7_left_block :: Block where
  "S7_left_block =
     [\<lparr>column = [IntField 0, IntField 1, IntField 2, IntField 3, IntField 4],
       column_type = TypeInt64, name = ''k''\<rparr>]"

definition S7_continuation :: "nat \<Rightarrow> NotProcessedCrossJoin option" where
  "S7_continuation left_row =
     Some \<lparr>not_processed_block = S7_left_block, left_position = left_row, right_block = 4\<rparr>"

lemmas cross_simps = joinBlockImplCross_def S7_join_def S7_left_block_def S7_right_block_def
  S7_continuation_def example_join_def rows_def upt_conv_Cons Let_def

section \<open>Rows emitted for a left row\<close>

text \<open>
  \<open>first_found\<close> is the first disjunct, in order, whose key at left row \<open>i\<close> is not
  null and is found, with what \<^verbatim>\<open>findKey\<close> returns for it.
\<close>

fun first_found :: "JoinRightColumns \<Rightarrow> nat \<Rightarrow> nat list \<Rightarrow> (Mapped \<times> nat) option" where
  "first_found J i [] = None"
| "first_found J i (d # ds) =
     (if is_null_at (null_maps J ! d) i then first_found J i ds
      else (case findKey J d i of None \<Rightarrow> first_found J i ds | Some found \<Rightarrow> Some found))"

text \<open>
  What a probe of strictness Any adds for one left row, stated in the words of section
  4.6 of the specification rather than translated from the source, to be compared with
  \<^verbatim>\<open>joinBlock\<close>. It is a function of the used flags before the row. A cell is won
  when the shape keeps no flags or the flag of the cell is clear, and then the flag is
  set. With the first key found for left row \<open>i\<close>, its mapped rows and its cell: kind
  Left adds the first mapped row and sets the flag, or adds a default row when no key is
  found; kind Inner adds the first mapped row when the cell is won; kind Right, with one
  disjunct, adds every mapped row when the cell is won; and otherwise nothing is added.
  \<open>any_row\<close> gives the rows added and the flags after the row, \<open>any_flags\<close> the
  flags before left row \<open>n\<close> and \<open>any_rows\<close> the rows added for each of the first
  \<open>n\<close> left rows.
\<close>

definition wins :: "bool \<Rightarrow> bool list \<Rightarrow> nat \<Rightarrow> bool" where
  "wins keeps_flags fl offset = (if keeps_flags then \<not> fl ! offset else True)"

definition mark :: "bool \<Rightarrow> bool list \<Rightarrow> nat \<Rightarrow> bool list" where
  "mark keeps_flags fl offset = (if keeps_flags then fl[offset := True] else fl)"

definition any_row :: "JoinRightColumns \<Rightarrow> bool list \<Rightarrow> nat \<Rightarrow> RowRef option list \<times> bool list" where
  "any_row J fl i =
     (case first_found J i (disjuncts J) of
        None \<Rightarrow> (if KIND J = Left then [None] else [], fl)
      | Some (mapped, offset) \<Rightarrow>
          if KIND J = Left then ([Some (hd mapped)], mark (use_flags J) fl offset)
          else if wins (use_flags J) fl offset
            then (if KIND J = Right then map Some mapped else [Some (hd mapped)],
                  mark (use_flags J) fl offset)
          else ([], fl))"

definition any_flags :: "JoinRightColumns \<Rightarrow> bool list \<Rightarrow> nat \<Rightarrow> bool list" where
  "any_flags J fl n = fold (\<lambda>i fl'. snd (any_row J fl' i)) [0..<n] fl"

definition any_rows :: "JoinRightColumns \<Rightarrow> bool list \<Rightarrow> nat \<Rightarrow> RowRef option list list" where
  "any_rows J fl n = map (\<lambda>i. fst (any_row J (any_flags J fl i) i)) [0..<n]"







text \<open>
  What \<^verbatim>\<open>addJoinedBlock\<close> returns and the maps it leaves, for the right rows of S6 on
  a new instance of kind Inner and strictness All with the disjuncts \<open>[a]\<close> and \<open>[b]\<close>.
\<close>

definition addJoinedBlock_result_maps :: "bool \<Rightarrow> (exception + bool) \<times> Map list" where
  "addJoinedBlock_result_maps check_limits =
     map_prod id maps
       (addJoinedBlock example_hash_table
          (example_join Inner All' False False [[''a''], [''b'']]) S6_right_block check_limits)"

text \<open>
  The row references a map holds, and the combined null map of disjunct \<open>d\<close> as
  \<^verbatim>\<open>addJoinedBlock\<close> computes it for a block: from the key columns of the disjunct,
  picked by their positions in the union of the key names.
\<close>

definition refs :: "Map \<Rightarrow> RowRef set" where
  "refs m = {r. \<exists>key mapped. map_of m key = Some mapped \<and> r \<in> set mapped}"

definition null_map_of :: "ColumnWithTypeAndName list \<Rightarrow> nat list \<Rightarrow> bool list option" where
  "null_map_of all_key_columns ind =
     snd (extractNestedColumnsAndNullMap (map (\<lambda>i. all_key_columns ! i) ind))"

definition key_null_map :: "HashJoin \<Rightarrow> Block \<Rightarrow> nat \<Rightarrow> bool list option" where
  "key_null_map join block d =
     (case key_names_right_indexes (key_names_right join) of
        (all_key_names_right, indexes) \<Rightarrow>
          (case getColumns block all_key_names_right of
             Inl e \<Rightarrow> None
           | Inr all_key_columns \<Rightarrow> null_map_of all_key_columns (indexes ! d)))"

section \<open>Properties of the key method chooser\<close>

lemma chooseMethod_loop_all_fixed:
  "fst (chooseMethod_loop cs j b ks) = list_all isFixedAndContiguous cs"
  by (induction cs arbitrary: j b ks) auto

lemma chooseMethod_loop_bytes:
  "list_all isFixedAndContiguous cs \<Longrightarrow>
   fst (snd (chooseMethod_loop cs j b ks)) = b + sum_list (map sizeOfValueIfFixed cs)"
  by (induction cs arbitrary: j b ks) auto

text \<open>
  C6. The tag \<^verbatim>\<open>chooseMethod\<close> returns is the one the cascade of section 4.1 gives: no
  key column is CROSS; one numeric column is key8, key16, key32, key64, keys128 or
  keys256 by its width 1, 2, 4, 8, 16 or 32, and a logical error at any other width;
  otherwise all-fixed columns of at most 16 (32) bytes in total are keys128 (keys256);
  otherwise one string column is key_string and one fixed-string column is
  key_fixed_string; everything else is hashed.
\<close>

theorem chooseMethod_refines_spec:
  "map_sum id fst (chooseMethod key_columns sizes) = chooseMethod_spec key_columns"
proof (cases key_columns)
  case Nil
  then show ?thesis by (simp add: chooseMethod_def chooseMethod_spec_def)
next
  case (Cons c cs)
  obtain f b ks where loop:
    "chooseMethod_loop key_columns 0 0 (resize (length key_columns) sizes) = (f, b, ks)"
    by (cases "chooseMethod_loop key_columns 0 0 (resize (length key_columns) sizes)")
  have f: "f = spec_all_fixed key_columns"
    using chooseMethod_loop_all_fixed [of key_columns 0 0 "resize (length key_columns) sizes"]
    by (simp add: loop spec_all_fixed_def)
  have b: "spec_all_fixed key_columns \<Longrightarrow> b = spec_total_bytes key_columns"
    using chooseMethod_loop_bytes [of key_columns 0 0 "resize (length key_columns) sizes"]
    by (simp add: loop spec_all_fixed_def spec_total_bytes_def)
  have one: "length key_columns = 1 \<longleftrightarrow> cs = []"
    using Cons by simp
  have le16: "(f \<and> b \<le> 16) = (spec_all_fixed key_columns \<and> spec_total_bytes key_columns \<le> 16)"
    using f b by auto
  have le32: "(f \<and> b \<le> 32) = (spec_all_fixed key_columns \<and> spec_total_bytes key_columns \<le> 32)"
    using f b by auto
  have "map_sum id fst (chooseMethod key_columns sizes) =
      (if cs = [] \<and> isNumeric c then numeric_width_tag (sizeOfValueIfFixed c)
       else if f \<and> b \<le> 16 then Inr keys128
       else if f \<and> b \<le> 32 then Inr keys256
       else if cs = [] \<and> column_class c \<in> {ColumnString, ColumnConstOfString}
         then Inr key_string
       else if cs = [] \<and> column_class c = ColumnFixedString then Inr key_fixed_string
       else Inr hashed)"
    using loop one unfolding Cons
    by (simp add: chooseMethod_def numeric_width_tag_def Let_def)
  then show ?thesis
    unfolding le16 le32 by (simp add: chooseMethod_spec_def Cons)
qed

section \<open>Properties of the ingestion\<close>

lemma getColumns_error: "getColumns block ns = Inl e \<Longrightarrow> e = NOT_FOUND_COLUMN_IN_BLOCK"
  by (induction ns arbitrary: e) (auto simp: getByName_def split: option.splits sum.splits)

lemma structureRightBlock_loop_error:
  "structureRightBlock_loop sample block = Inl e \<Longrightarrow> e = NOT_FOUND_COLUMN_IN_BLOCK"
  by (induction sample arbitrary: e) (auto simp: getByName_def split: option.splits sum.splits)

lemma check_error: "check l r b c = Inl e \<Longrightarrow> e = Exception c"
  by (auto simp: check_def split: if_splits)

lemma insert_disjunct_Inl:
  assumes "insert_disjunct X join d n kc sb nm = Inl (e, join')"
  shows "e = Abort" and "blocks join' = blocks join" and "data_empty join' = data_empty join"
    and "kind join' = kind join" and "data_type join' = data_type join"
    and "length (maps join') = length (maps join)"
  using assms
  by (auto simp: insert_disjunct_def reinit_def split: if_splits prod.splits sum.splits)

lemma insert_disjunct_Inr:
  assumes "insert_disjunct X join d n kc sb nm = Inr join'"
  shows "blocks join' = blocks join" and "data_empty join' = data_empty join"
    and "kind join' = kind join" and "data_type join' = data_type join"
    and "length (maps join') = length (maps join)"
  using assms
  by (auto simp: insert_disjunct_def split: if_splits prod.splits sum.splits)

lemma addJoinedBlock_loop_error:
  "fst (addJoinedBlock_loop X cl n ks sb inds d sv tot join) = Inl e \<Longrightarrow>
   e = Exception LOGICAL_ERROR \<or> e = Exception SET_SIZE_LIMIT_EXCEEDED \<or> e = Abort"
  by (induction inds arbitrary: d sv tot join)
     (auto simp: Let_def dest: check_error insert_disjunct_Inl(1)
           split: prod.splits if_splits sum.splits)

lemma addJoinedBlock_loop_blocks:
  "blocks (snd (addJoinedBlock_loop X cl n ks sb inds d sv tot join)) = blocks join"
  by (induction inds arbitrary: d sv tot join)
     (auto simp: Let_def insert_disjunct_Inl(2) insert_disjunct_Inr(1)
           split: prod.splits if_splits sum.splits)

lemma addJoinedBlock_loop_data_empty:
  "data_empty (snd (addJoinedBlock_loop X cl n ks sb inds d sv tot join)) = data_empty join"
  by (induction inds arbitrary: d sv tot join)
     (auto simp: Let_def insert_disjunct_Inl(3) insert_disjunct_Inr(2)
           split: prod.splits if_splits sum.splits)

lemma addJoinedBlock_loop_kind:
  "kind (snd (addJoinedBlock_loop X cl n ks sb inds d sv tot join)) = kind join"
  by (induction inds arbitrary: d sv tot join)
     (auto simp: Let_def insert_disjunct_Inl(4) insert_disjunct_Inr(3)
           split: prod.splits if_splits sum.splits)

lemma addJoinedBlock_loop_data_type:
  "data_type (snd (addJoinedBlock_loop X cl n ks sb inds d sv tot join)) = data_type join"
  by (induction inds arbitrary: d sv tot join)
     (auto simp: Let_def insert_disjunct_Inl(5) insert_disjunct_Inr(4)
           split: prod.splits if_splits sum.splits)

lemma addJoinedBlock_kind: "kind (snd (addJoinedBlock X join b cl)) = kind join"
  by (simp add: addJoinedBlock_def addJoinedBlock_loop_kind Let_def
           split: prod.splits sum.splits)

lemma addJoinedBlock_data_type:
  "data_type (snd (addJoinedBlock X join b cl)) = data_type join"
  by (simp add: addJoinedBlock_def addJoinedBlock_loop_data_type Let_def
           split: prod.splits sum.splits)

lemma addJoinedBlock_data_empty:
  "data_empty (snd (addJoinedBlock X join b cl)) =
     (data_empty join \<and> (blocks (snd (addJoinedBlock X join b cl)) = blocks join \<or> rows b = 0))"
  by (simp add: addJoinedBlock_def addJoinedBlock_loop_data_empty addJoinedBlock_loop_blocks
           Let_def split: prod.splits sum.splits)

lemma addJoinedBlocks_kind: "kind (addJoinedBlocks X join calls) = kind join"
  by (induction calls arbitrary: join) (auto simp: addJoinedBlock_kind)

lemma addJoinedBlocks_data_type: "data_type (addJoinedBlocks X join calls) = data_type join"
  by (induction calls arbitrary: join) (auto simp: addJoinedBlock_data_type)

lemma addJoinedBlocks_data_empty:
  "data_empty (addJoinedBlocks X join calls) =
     (data_empty join \<and> ingested_rows X join calls = 0)"
proof (induction calls arbitrary: join)
  case Nil
  show ?case by simp
next
  case (Cons call calls)
  obtain b cl where call: "call = (b, cl)" by (cases call)
  show ?case
    unfolding call using Cons.IH [of "snd (addJoinedBlock X join b cl)"]
    by (auto simp: addJoinedBlock_data_empty [of X join b cl])
qed

lemma rows_oversized_block: "rows oversized_block = 4294967296"
  by (simp add: oversized_block_def rows_def)

text \<open>
  C7. On an instance that is initialised and not dictionary-backed (the preconditions of
  section 4.3), \<^verbatim>\<open>addJoinedBlock\<close> throws \<^verbatim>\<open>NOT_IMPLEMENTED\<close> exactly when the block
  has more than \<open>2 ^ 32 - 1\<close> rows, and then it leaves the state as it was. A block within
  the bound whose key columns and saved columns are found is appended to
  \<^verbatim>\<open>data->blocks\<close>, whatever happens later in the call.
\<close>

theorem addJoinedBlock_rejects_oversized_block:
  assumes "\<not> empty join" and "\<not> overDictionary join"
  shows "(fst (addJoinedBlock X join source_block check_limits) = Inl (Exception NOT_IMPLEMENTED))
           = (4294967295 < rows source_block)
       \<and> (4294967295 < rows source_block
            \<longrightarrow> snd (addJoinedBlock X join source_block check_limits) = join)
       \<and> (rows source_block \<le> 4294967295
            \<and> getColumns source_block (fst (key_names_right_indexes (key_names_right join)))
                = Inr all_key_columns
            \<and> structureRightBlock join source_block = Inr structured_block
            \<longrightarrow> blocks (snd (addJoinedBlock X join source_block check_limits))
                  = blocks join
                    @ [if nullable_right_side join \<and> 1 < length (key_names_right join)
                       then convertColumnsToNullable structured_block else structured_block])"
proof (cases "4294967295 < rows source_block")
  case True
  with assms show ?thesis by (simp add: addJoinedBlock_def)
next
  case False
  have "fst (addJoinedBlock X join source_block check_limits) \<noteq> Inl (Exception NOT_IMPLEMENTED)"
    using assms False
    by (auto simp: addJoinedBlock_def structureRightBlock_def Let_def
             split: prod.splits sum.splits
             dest: getColumns_error structureRightBlock_loop_error addJoinedBlock_loop_error)
  moreover have "blocks (snd (addJoinedBlock X join source_block check_limits))
        = blocks join
          @ [if nullable_right_side join \<and> 1 < length (key_names_right join)
             then convertColumnsToNullable structured_block else structured_block]"
    if "getColumns source_block (fst (key_names_right_indexes (key_names_right join)))
          = Inr all_key_columns"
      and "structureRightBlock join source_block = Inr structured_block"
  proof -
    obtain names inds where
      ki: "key_names_right_indexes (key_names_right join) = (names, inds)"
      by (cases "key_names_right_indexes (key_names_right join)")
    from that(1) have "getColumns source_block names = Inr all_key_columns"
      by (simp add: ki)
    with assms False that(2) ki show ?thesis
      by (simp add: addJoinedBlock_def addJoinedBlock_loop_blocks Let_def)
  qed
  ultimately show ?thesis using False by simp
qed

theorem addJoinedBlock_rejects_oversized_block_witness:
  "\<not> empty (example_join Inner All' False False [[''a'']])
   \<and> \<not> overDictionary (example_join Inner All' False False [[''a'']])
   \<and> fst (addJoinedBlock example_hash_table (example_join Inner All' False False [[''a'']])
            oversized_block True) = Inl (Exception NOT_IMPLEMENTED)
   \<and> fst (addJoinedBlock example_hash_table (example_join Inner All' False False [[''a'']])
            S6_right_block True) = Inr True
   \<and> blocks (snd (addJoinedBlock example_hash_table
                    (example_join Inner All' False False [[''a'']]) S6_right_block True))
       = [S6_right_block]"
proof -
  let ?join = "example_join Inner All' False False [[''a'']]"
  have pre: "\<not> empty ?join" "\<not> overDictionary ?join"
    by (simp_all add: example_join_def empty_def overDictionary_def)
  have big: "fst (addJoinedBlock example_hash_table ?join oversized_block True)
               = Inl (Exception NOT_IMPLEMENTED)"
    using addJoinedBlock_rejects_oversized_block [OF pre, of example_hash_table oversized_block True]
    by (simp add: rows_oversized_block)
  have ok: "fst (addJoinedBlock example_hash_table ?join S6_right_block True) = Inr True"
    by (simp add: example_simps)
  have stored: "blocks (snd (addJoinedBlock example_hash_table ?join S6_right_block True))
                  = [S6_right_block]"
    by (simp add: example_simps)
  from pre big ok stored show ?thesis by simp
qed

text \<open>
  C10. On an instance that starts with \<^verbatim>\<open>data->empty\<close> set, as a new one does, after
  any run of \<^verbatim>\<open>addJoinedBlock\<close> calls \<^verbatim>\<open>alwaysReturnsEmptySet\<close> is true exactly when
  the kind is Inner or Right, the calls have stored no row of the right side, and the
  instance is not dictionary-backed. So it is false for Left, Full and Cross joins and
  for a dictionary-backed join, also with nothing ingested.
\<close>

theorem alwaysReturnsEmptySet_iff:
  assumes "data_empty join"
  shows "alwaysReturnsEmptySet (addJoinedBlocks X join calls)
           = ((kind join = Inner \<or> kind join = Right)
              \<and> ingested_rows X join calls = 0
              \<and> data_type join \<noteq> DICT)"
  using assms
  by (auto simp: alwaysReturnsEmptySet_def isInnerOrRight_def overDictionary_def
        addJoinedBlocks_kind addJoinedBlocks_data_type addJoinedBlocks_data_empty)

theorem alwaysReturnsEmptySet_iff_witness:
  "data_empty (example_join Inner All' False False [[''a'']])
   \<and> alwaysReturnsEmptySet
       (addJoinedBlocks example_hash_table (example_join Inner All' False False [[''a'']]) [])
   \<and> \<not> alwaysReturnsEmptySet
       (addJoinedBlocks example_hash_table (example_join Inner All' False False [[''a'']])
          [(S6_right_block, True)])
   \<and> \<not> alwaysReturnsEmptySet
       (addJoinedBlocks example_hash_table (example_join Left All' False False [[''a'']]) [])"
proof -
  let ?join = "example_join Inner All' False False [[''a'']]"
  have fresh: "data_empty ?join" "data_empty (example_join Left All' False False [[''a'']])"
    by (simp_all add: example_join_def)
  have stored: "blocks (snd (addJoinedBlock example_hash_table ?join S6_right_block True))
                  = [S6_right_block]"
    by (simp add: example_simps)
  have none: "alwaysReturnsEmptySet (addJoinedBlocks example_hash_table ?join [])"
    using alwaysReturnsEmptySet_iff [OF fresh(1), of example_hash_table "[]"]
    by (simp add: example_join_def)
  have some: "\<not> alwaysReturnsEmptySet
                 (addJoinedBlocks example_hash_table ?join [(S6_right_block, True)])"
    using alwaysReturnsEmptySet_iff [OF fresh(1), of example_hash_table "[(S6_right_block, True)]"]
      stored
    by (simp add: example_join_def S6_right_block_def rows_def)
  have left: "\<not> alwaysReturnsEmptySet
                 (addJoinedBlocks example_hash_table
                    (example_join Left All' False False [[''a'']]) [])"
    using alwaysReturnsEmptySet_iff [OF fresh(2), of example_hash_table "[]"]
    by (simp add: example_join_def)
  from fresh none some left show ?thesis by simp
qed

lemma key_names_indexes_rest_length:
  "length (snd (key_names_indexes_rest all_names rest)) = length rest"
proof (induction rest arbitrary: all_names)
  case Nil
  show ?case by simp
next
  case (Cons names rest)
  obtain a i where d: "key_names_indexes_disjunct all_names names [] = (a, i)"
    by (cases "key_names_indexes_disjunct all_names names []")
  obtain a' r where r: "key_names_indexes_rest a rest = (a', r)"
    by (cases "key_names_indexes_rest a rest")
  from Cons.IH [of a] r have "length r = length rest" by simp
  then show ?case by (simp add: d r)
qed

lemma key_names_right_indexes_length:
  "length (snd (key_names_right_indexes names)) = length names"
proof (cases names)
  case Nil
  then show ?thesis by (simp add: key_names_right_indexes_def)
next
  case (Cons names0 rest)
  obtain a r where r: "key_names_indexes_rest names0 rest = (a, r)"
    by (cases "key_names_indexes_rest names0 rest")
  from key_names_indexes_rest_length [of names0 rest] r have "length r = length rest" by simp
  then show ?thesis by (simp add: key_names_right_indexes_def Cons r)
qed

lemma addJoinedBlock_loop_length_maps:
  "length (maps (snd (addJoinedBlock_loop X cl n ks sb inds d sv tot join))) = length (maps join)"
  by (induction inds arbitrary: d sv tot join)
     (auto simp: Let_def insert_disjunct_Inl(6) insert_disjunct_Inr(5)
           split: prod.splits if_splits sum.splits)

text \<open>
  C5, on the code. \<^verbatim>\<open>JoinUsedFlags\<close> holds one vector of flags.
  \<^verbatim>\<open>addJoinedBlock\<close> calls \<^verbatim>\<open>reinit\<close> on it for every disjunct in turn, with the
  cells of the map of that disjunct plus one; \<^verbatim>\<open>reinit\<close> asserts that the vector does
  not shrink; and the probe indexes the one vector with the cell offsets of every map.
  Take the flagged shape Right All with the disjuncts \<open>[a]\<close> or \<open>[b]\<close> and the right
  rows of S6. With 256 cells in every map the vector has 257 flags after the call, where
  the sum over the disjuncts of the cells plus one is 514. With a library whose buffer
  grows with the keys, the map of \<open>[a]\<close>, of two keys, has more cells than the map of
  \<open>[b]\<close>, of one key: a build that checks assertions aborts in the second
  \<^verbatim>\<open>reinit\<close>; a build that does not is left with the 257 flags of the map of
  \<open>[b]\<close>, and the probe of the left row \<open>(a=3, b=7)\<close>, whose key is in cell 257 of
  the map of \<open>[a]\<close>, stores its flag outside the vector.
\<close>

theorem used_flags_one_vector_for_all_disjuncts:
  "length (flags (used_flags (snd (addJoinedBlock example_hash_table
       (example_join Right All' True False [[''a''], [''b'']]) S6_right_block True)))) = 257
   \<and> sum_list (map (\<lambda>m. getBufferSizeInCells example_hash_table m + 1)
       (maps (snd (addJoinedBlock example_hash_table
          (example_join Right All' True False [[''a''], [''b'']]) S6_right_block True)))) = 514
   \<and> fst (addJoinedBlock (growing_hash_table True)
       (example_join Right All' True False [[''a''], [''b'']]) S6_right_block True) = Inl Abort
   \<and> map_prod id (\<lambda>join. length (flags (used_flags join)))
       (addJoinedBlock (growing_hash_table False)
          (example_join Right All' True False [[''a''], [''b'']]) S6_right_block True)
     = (Inr True, 257)
   \<and> fst (joinBlock (growing_hash_table False) no_asof no_dictionary
       (snd (addJoinedBlock (growing_hash_table False)
               (example_join Right All' True False [[''a''], [''b'']]) S6_right_block True))
       q_left_block None) = Inl UndefinedBehaviour"
proof -
  have "length (flags (used_flags (snd (addJoinedBlock example_hash_table
       (example_join Right All' True False [[''a''], [''b'']]) S6_right_block True)))) = 257"
    by (simp add: example_simps)
  moreover have "sum_list (map (\<lambda>m. getBufferSizeInCells example_hash_table m + 1)
       (maps (snd (addJoinedBlock example_hash_table
          (example_join Right All' True False [[''a''], [''b'']]) S6_right_block True)))) = 514"
    by (simp add: example_simps)
  moreover have "fst (addJoinedBlock (growing_hash_table True)
       (example_join Right All' True False [[''a''], [''b'']]) S6_right_block True) = Inl Abort"
    by (simp add: example_simps growing_hash_table_def)
  moreover have "map_prod id (\<lambda>join. length (flags (used_flags join)))
       (addJoinedBlock (growing_hash_table False)
          (example_join Right All' True False [[''a''], [''b'']]) S6_right_block True)
     = (Inr True, 257)"
    by (simp add: example_simps growing_hash_table_def)
  moreover have "fst (joinBlock (growing_hash_table False) no_asof no_dictionary
       (snd (addJoinedBlock (growing_hash_table False)
               (example_join Right All' True False [[''a''], [''b'']]) S6_right_block True))
       q_left_block None) = Inl UndefinedBehaviour"
    by (simp add: example_simps probe_simps growing_hash_table_def q_left_block_def)
  ultimately show ?thesis by simp
qed

section \<open>Properties of the cross join\<close>

lemma cross_right_blocks_inv:
  assumes "cross_right_blocks start cells nadd bs bn ra dst = (bn', ra', dst')"
    and "cells \<noteq> []" and "length dst = length cells + nadd"
  shows "ra \<le> ra' \<and> ra' \<le> ra + sum_list (map rows bs)
         \<and> length dst' = length dst
         \<and> length (dst' ! 0) = length (dst ! 0) + (ra' - ra)"
  using assms
proof (induction bs arbitrary: bn ra dst)
  case Nil
  then show ?case by simp
next
  case (Cons b bs)
  show ?case
  proof (cases "Suc bn < start")
    case True
    with Cons.prems have "cross_right_blocks start cells nadd bs (Suc bn) ra dst = (bn', ra', dst')"
      by simp
    from Cons.IH [OF this Cons.prems(2,3)] show ?thesis by simp
  next
    case False
    let ?dst = "map (\<lambda>col_num.
                      if col_num < length cells
                      then dst ! col_num @ replicate (rows b) (cells ! col_num)
                      else dst ! col_num @ take (rows b) (column (b ! (col_num - length cells))))
                 [0..<length cells + nadd]"
    from False Cons.prems(1)
    have rec: "cross_right_blocks start cells nadd bs (Suc bn) (ra + rows b) ?dst = (bn', ra', dst')"
      by (simp add: Let_def)
    have len: "length ?dst = length cells + nadd" by simp
    have pos: "0 < length cells + nadd" using Cons.prems(2) by (cases cells) auto
    have first: "?dst ! 0 = dst ! 0 @ replicate (rows b) (cells ! 0)"
      using Cons.prems(2) pos by (simp add: nth_map_upt del: upt_Suc)
    from Cons.IH [OF rec Cons.prems(2) len] first Cons.prems(3)
    show ?thesis by auto
  qed
qed

lemma cross_left_rows_inv:
  assumes "cross_left_rows cap block nadd bs ls start ra dst = (cont, dst')"
    and "block \<noteq> []" and "length dst = length block + nadd"
    and "ra \<le> cap" and "length (dst ! 0) = ra"
  shows "length dst' = length dst
         \<and> length (dst' ! 0) \<le> cap + sum_list (map rows bs)
         \<and> (cont \<noteq> None) = (cap < length (dst' ! 0))"
  using assms
proof (induction ls arbitrary: start ra dst)
  case Nil
  then show ?case by auto
next
  case (Cons l ls)
  let ?cells = "map (\<lambda>c. column c ! l) block"
  obtain bn ra' dst1 where inner:
    "cross_right_blocks start ?cells nadd bs 0 ra dst = (bn, ra', dst1)"
    by (cases "cross_right_blocks start ?cells nadd bs 0 ra dst")
  have cells: "?cells \<noteq> []" using Cons.prems(2) by simp
  have ldst: "length dst = length ?cells + nadd" using Cons.prems(3) by simp
  note inv = cross_right_blocks_inv [OF inner cells ldst]
  show ?case
  proof (cases "cap < ra'")
    case True
    with Cons.prems(1) inner have "cont = Some (l, bn + 1)" "dst' = dst1" by simp_all
    with inv True Cons.prems(4,5) show ?thesis by auto
  next
    case False
    with Cons.prems(1) inner
    have rec: "cross_left_rows cap block nadd bs ls 0 ra' dst1 = (cont, dst')" by simp
    have "length dst1 = length block + nadd" using inv Cons.prems(3) by simp
    moreover have "ra' \<le> cap" using False by simp
    moreover have "length (dst1 ! 0) = ra'" using inv Cons.prems(5) by simp
    ultimately show ?thesis
      using Cons.IH [OF rec Cons.prems(2)] inv by simp
  qed
qed

text \<open>
  C2, as the code has it. The cap is tested only after a left row has been joined with
  every right block. So a call of \<^verbatim>\<open>joinBlock\<close> with kind Cross on a left block with a
  column emits at most \<^verbatim>\<open>max_joined_block_rows\<close> plus the number of rows of the right
  side, and it stores a continuation exactly when it has emitted more rows than the cap.
\<close>

theorem cross_join_cap:
  assumes "kind join = Cross" and "block \<noteq> []"
  shows "\<exists>joined continuation.
           joinBlock X find_asof reader join block not_processed
             = (Inr joined, continuation, join)
           \<and> rows joined \<le> max_joined_block_rows join + sum_list (map rows (blocks join))
           \<and> (continuation \<noteq> None) = (max_joined_block_rows join < rows joined)"
proof -
  let ?to_add = "sample_block_with_columns_to_add join"
  let ?l = "case not_processed of None \<Rightarrow> 0 | Some c \<Rightarrow> left_position c"
  let ?b = "case not_processed of None \<Rightarrow> 0 | Some c \<Rightarrow> right_block c"
  let ?dst = "replicate (length block + length ?to_add) ([] :: Field list)"
  obtain cont dst' where loop:
    "cross_left_rows (max_joined_block_rows join) block (length ?to_add) (blocks join)
       [?l..<rows block] ?b 0 ?dst = (cont, dst')"
    by (cases "cross_left_rows (max_joined_block_rows join) block (length ?to_add) (blocks join)
       [?l..<rows block] ?b 0 ?dst")
  have pos: "0 < length block + length ?to_add" using assms(2) by (cases block) auto
  have inv: "length dst' = length ?dst
         \<and> length (dst' ! 0) \<le> max_joined_block_rows join + sum_list (map rows (blocks join))
         \<and> (cont \<noteq> None) = (max_joined_block_rows join < length (dst' ! 0))"
    by (rule cross_left_rows_inv [OF loop assms(2)]) (use pos in simp_all)
  let ?joined = "map2 (\<lambda>c cells. c\<lparr>column := cells\<rparr>) (block @ ?to_add) dst'"
  obtain c cs where block: "block = c # cs" using assms(2) by (cases block) auto
  obtain d ds where dst': "dst' = d # ds" using inv pos by (cases dst') auto
  have rows: "rows ?joined = length (dst' ! 0)"
    by (simp add: block dst' rows_def)
  have "joinBlock X find_asof reader join block not_processed
      = (Inr ?joined,
         map_option (\<lambda>(left_row, block_number).
                  \<lparr>not_processed_block = block, left_position = left_row,
                   right_block = block_number\<rparr>) cont, join)"
    using assms(1) loop by (simp add: joinBlock_def joinBlockImplCross_def Let_def)
  with inv rows show ?thesis by auto
qed

theorem cross_join_cap_witness:
  "kind S7_join = Cross \<and> S7_left_block \<noteq> []
   \<and> (\<exists>joined continuation.
         joinBlock example_hash_table no_asof no_dictionary S7_join S7_left_block None
           = (Inr joined, continuation, S7_join)
         \<and> rows joined \<le> 17 + 30
         \<and> (continuation \<noteq> None) = (17 < rows joined))"
proof -
  have h: "kind S7_join = Cross" "S7_left_block \<noteq> []"
    by (simp_all add: S7_join_def example_join_def S7_left_block_def)
  have "max_joined_block_rows S7_join + sum_list (map rows (blocks S7_join)) = 17 + 30"
    by (simp add: S7_join_def S7_right_block_def rows_def)
  with cross_join_cap [OF h, of example_hash_table no_asof no_dictionary None] h
  show ?thesis by (simp add: S7_join_def)
qed

text \<open>
  C2 as stated fails on scenario S7: the first call emits 30 rows, the rows of the
  first left row with all three right blocks, which is neither 17 nor within the cap.
  The calls that follow resume at the left row of the continuation with
  \<^verbatim>\<open>right_block\<close> = 4, past the three right blocks, so each skips that left row and
  emits the 30 rows of the next one; the sixth call emits nothing and stores no
  continuation.
\<close>

theorem cross_join_cap_counterexample:
  "map_prod rows id (joinBlockImplCross S7_join S7_left_block None) = (30, S7_continuation 0)
   \<and> map_prod rows id (joinBlockImplCross S7_join S7_left_block (S7_continuation 0))
       = (30, S7_continuation 1)
   \<and> map_prod rows id (joinBlockImplCross S7_join S7_left_block (S7_continuation 1))
       = (30, S7_continuation 2)
   \<and> map_prod rows id (joinBlockImplCross S7_join S7_left_block (S7_continuation 4))
       = (0, None)
   \<and> max_joined_block_rows S7_join = 17"
  by (simp add: cross_simps)

section \<open>Properties of the probe\<close>

text \<open>
  C8. \<^verbatim>\<open>createStreamWithNonJoinedRows\<close> returns a stream exactly when the kind is
  Right or Full and the strictness is neither Asof nor Semi.
\<close>

theorem createStreamWithNonJoinedRows_iff:
  "(createStreamWithNonJoinedRows join sample n \<noteq> None)
     = ((kind join = Right \<or> kind join = Full)
        \<and> strictness join \<noteq> Asof \<and> strictness join \<noteq> Semi)"
  by (simp add: createStreamWithNonJoinedRows_def isRightOrFull_def)

lemma left_key_columns_error:
  "left_key_columns block names = Inl e \<Longrightarrow> e = NOT_FOUND_COLUMN_IN_BLOCK"
  by (induction names arbitrary: e) (auto split: sum.splits dest: getColumns_error)

lemma getPositionsByName_error:
  "getPositionsByName sample ns = Inl e \<Longrightarrow> e = NOT_FOUND_COLUMN_IN_BLOCK"
  by (induction ns arbitrary: e) (auto split: sum.splits option.splits)

lemma makeAddedColumns_over_dictionary_error:
  assumes "overDictionary join" and "s = Any \<or> s = Semi \<or> s = Anti"
    and "makeAddedColumns X find_asof reader join Left s block = Inl e"
  shows "e = NOT_FOUND_COLUMN_IN_BLOCK"
  using assms
  by (auto simp: makeAddedColumns_def dictionaryJoinRightColumns_def
           split: sum.splits prod.splits
           dest: left_key_columns_error getPositionsByName_error)

text \<open>
  C9, as the code has it. On a dictionary-backed instance of a kind other than Cross,
  \<^verbatim>\<open>joinBlock\<close> throws the logical error of a wrong combination for every kind and
  strictness except Left with Any, All, Semi or Anti and Inner with All: Left All runs
  as Left Any, Inner All as Left Semi.
\<close>

theorem joinBlock_over_dictionary_combinations:
  assumes "overDictionary join" and "kind join \<noteq> Cross"
  shows "(fst (joinBlock X find_asof reader join block not_processed)
            = Inl (Exception LOGICAL_ERROR))
         = (\<not> (kind join = Left \<and> strictness join \<in> {Any, All', Semi, Anti})
            \<and> \<not> (kind join = Inner \<and> strictness join = All'))"
proof (cases "(kind join = Left \<and> strictness join \<in> {Any, All', Semi, Anti})
            \<or> (kind join = Inner \<and> strictness join = All')")
  case True
  then obtain s where inst: "dictionary_instantiation (kind join) (strictness join) = Inr (Left, s)"
    and s: "s = Any \<or> s = Semi \<or> s = Anti"
    by (auto simp: dictionary_instantiation_def)
  let ?block = "if isRightOrFull (kind join) \<and> nullable_left_side join
                then convertColumnsToNullable block else block"
  have "fst (joinBlock X find_asof reader join block not_processed)
          \<noteq> Inl (Exception LOGICAL_ERROR)"
  proof (cases "makeAddedColumns X find_asof reader join Left s ?block")
    case (Inl e)
    with makeAddedColumns_over_dictionary_error [OF assms(1) s Inl]
    show ?thesis using assms inst by (simp add: joinBlock_def Let_def)
  next
    case (Inr r)
    then show ?thesis using assms inst by (simp add: joinBlock_def Let_def split: prod.splits)
  qed
  with True show ?thesis by auto
next
  case False
  then have "dictionary_instantiation (kind join) (strictness join) = Inl (Exception LOGICAL_ERROR)"
    by (cases "strictness join") (auto simp: dictionary_instantiation_def)
  with assms False show ?thesis by (simp add: joinBlock_def Let_def)
qed

theorem joinBlock_over_dictionary_combinations_witness:
  "overDictionary (dictionary_join Left Semi) \<and> kind (dictionary_join Left Semi) \<noteq> Cross
   \<and> fst (joinBlock example_hash_table no_asof example_dictionary (dictionary_join Left Semi)
            S6_left_block None) \<noteq> Inl (Exception LOGICAL_ERROR)
   \<and> overDictionary (dictionary_join Right Any) \<and> kind (dictionary_join Right Any) \<noteq> Cross
   \<and> fst (joinBlock example_hash_table no_asof example_dictionary (dictionary_join Right Any)
            S6_left_block None) = Inl (Exception LOGICAL_ERROR)"
proof -
  have h1: "overDictionary (dictionary_join Left Semi)" "kind (dictionary_join Left Semi) \<noteq> Cross"
    and h2: "overDictionary (dictionary_join Right Any)" "kind (dictionary_join Right Any) \<noteq> Cross"
    by (simp_all add: dictionary_join_def example_join_def overDictionary_def)
  have k: "kind (dictionary_join Left Semi) = Left" "strictness (dictionary_join Left Semi) = Semi"
    "kind (dictionary_join Right Any) = Right" "strictness (dictionary_join Right Any) = Any"
    by (simp_all add: dictionary_join_def example_join_def)
  from joinBlock_over_dictionary_combinations
         [OF h1, of example_hash_table no_asof example_dictionary S6_left_block None]
       joinBlock_over_dictionary_combinations
         [OF h2, of example_hash_table no_asof example_dictionary S6_left_block None]
       h1 h2 k
  show ?thesis by simp
qed

text \<open>
  C9 as stated fails for Left with All: the dictionary-backed instance joins the left
  row \<open>(a=1, b=2)\<close> with the row the dictionary finds for key 1, and throws nothing.
\<close>

theorem joinBlock_over_dictionary_counterexample:
  "fst (joinBlock example_hash_table no_asof example_dictionary (dictionary_join Left All')
          S6_left_block None)
   = Inr [\<lparr>column = [IntField 1], column_type = TypeInt64, name = ''a''\<rparr>,
          \<lparr>column = [IntField 2], column_type = TypeInt64, name = ''b''\<rparr>,
          \<lparr>column = [StrField ''p''], column_type = TypeString, name = ''v''\<rparr>]"
  by (simp add: example_simps probe_simps)

text \<open>
  C1, on the code. Scenario S6 with the two right rows ingested as one block, kind
  Inner, strictness All and the disjuncts \<open>[a]\<close> or \<open>[b]\<close>: for the left row
  \<open>(a=1, b=2)\<close> \<^verbatim>\<open>joinBlock\<close> emits the row \<open>"p"\<close> only. Disjunct \<open>[a]\<close> appends
  \<open>"p"\<close> and \<^verbatim>\<open>known_rows\<close> records its block; disjunct \<open>[b]\<close> finds both rows, and
  \<^verbatim>\<open>isKnown\<close> skips both, since they are in the recorded block: \<open>"q"\<close>, which matches
  disjunct \<open>[b]\<close>, is never emitted.
\<close>

theorem S6_joinBlock_emits_only_p:
  "fst (joinBlock example_hash_table no_asof no_dictionary
          (snd (addJoinedBlock example_hash_table
                  (example_join Inner All' False False [[''a''], [''b'']]) S6_right_block True))
          S6_left_block None)
   = Inr [\<lparr>column = [IntField 1], column_type = TypeInt64, name = ''a''\<rparr>,
          \<lparr>column = [IntField 2], column_type = TypeInt64, name = ''b''\<rparr>,
          \<lparr>column = [StrField ''p''], column_type = TypeString, name = ''v''\<rparr>]"
  by (simp add: example_simps probe_simps)

section \<open>Properties of a probe of strictness Any\<close>










lemma nth_any_rows:
  "i < n \<Longrightarrow> any_rows J fl n ! i = fst (any_row J (any_flags J fl i) i)"
  by (simp add: any_rows_def)




























section \<open>Ingestion into the maps of several disjuncts\<close>

text \<open>
  With limit check the loop reaches every disjunct. On a shape whose maps hold chains,
  a successful call then adds to the map of every disjunct exactly the rows of the
  block whose combined null map entry for that disjunct is clear.
\<close>

lemma set_RowRefList_insert: "set (RowRefList_insert mapped r) = insert r (set mapped)"
  by (cases mapped) auto

lemma refs_iff:
  "r \<in> refs m \<longleftrightarrow> (\<exists>key mapped. map_of m key = Some mapped \<and> r \<in> set mapped)"
  by (simp add: refs_def)

lemma refs_update_new:
  assumes "map_of m key = None"
  shows "refs (AList.update key v m) = set v \<union> refs m"
proof (rule set_eqI)
  fix r
  show "r \<in> refs (AList.update key v m) \<longleftrightarrow> r \<in> set v \<union> refs m"
  proof
    assume "r \<in> refs (AList.update key v m)"
    then obtain k mapped where km: "map_of (AList.update key v m) k = Some mapped" "r \<in> set mapped"
      unfolding refs_iff by blast
    show "r \<in> set v \<union> refs m"
    proof (cases "k = key")
      case True
      with km show ?thesis by (simp add: update_conv')
    next
      case False
      with km have "map_of m k = Some mapped" by (simp add: update_conv')
      with km(2) have "r \<in> refs m" unfolding refs_iff by blast
      then show ?thesis by simp
    qed
  next
    assume "r \<in> set v \<union> refs m"
    then show "r \<in> refs (AList.update key v m)"
    proof
      assume "r \<in> set v"
      moreover have "map_of (AList.update key v m) key = Some v" by (simp add: update_conv')
      ultimately show ?thesis unfolding refs_iff by blast
    next
      assume "r \<in> refs m"
      then obtain k mapped where km: "map_of m k = Some mapped" "r \<in> set mapped"
        unfolding refs_iff by blast
      with assms have "k \<noteq> key" by auto
      with km(1) have "map_of (AList.update key v m) k = Some mapped" by (simp add: update_conv')
      with km(2) show ?thesis unfolding refs_iff by blast
    qed
  qed
qed

lemma refs_update_old:
  assumes "map_of m key = Some old" and "set old \<subseteq> set v"
  shows "refs (AList.update key v m) = set v \<union> refs m"
proof (rule set_eqI)
  fix r
  show "r \<in> refs (AList.update key v m) \<longleftrightarrow> r \<in> set v \<union> refs m"
  proof
    assume "r \<in> refs (AList.update key v m)"
    then obtain k mapped where km: "map_of (AList.update key v m) k = Some mapped" "r \<in> set mapped"
      unfolding refs_iff by blast
    show "r \<in> set v \<union> refs m"
    proof (cases "k = key")
      case True
      with km show ?thesis by (simp add: update_conv')
    next
      case False
      with km have "map_of m k = Some mapped" by (simp add: update_conv')
      with km(2) have "r \<in> refs m" unfolding refs_iff by blast
      then show ?thesis by simp
    qed
  next
    assume "r \<in> set v \<union> refs m"
    then show "r \<in> refs (AList.update key v m)"
    proof
      assume "r \<in> set v"
      moreover have "map_of (AList.update key v m) key = Some v" by (simp add: update_conv')
      ultimately show ?thesis unfolding refs_iff by blast
    next
      assume "r \<in> refs m"
      then obtain k mapped where km: "map_of m k = Some mapped" "r \<in> set mapped"
        unfolding refs_iff by blast
      show ?thesis
      proof (cases "k = key")
        case True
        with km assms have "r \<in> set v" by auto
        moreover have "map_of (AList.update key v m) key = Some v" by (simp add: update_conv')
        ultimately show ?thesis unfolding refs_iff by blast
      next
        case False
        with km(1) have "map_of (AList.update key v m) k = Some mapped"
          by (simp add: update_conv')
        with km(2) show ?thesis unfolding refs_iff by blast
      qed
    qed
  qed
qed

lemma refs_insertAll: "refs (insertAll m key r) = insert r (refs m)"
proof (cases "map_of m key")
  case None
  then show ?thesis by (simp add: insertAll_def refs_update_new)
next
  case (Some mapped)
  have "set mapped \<subseteq> set (RowRefList_insert mapped r)"
    by (auto simp: set_RowRefList_insert)
  from refs_update_old [OF Some this] have
    "refs (AList.update key (RowRefList_insert mapped r) m)
       = insert r (set mapped) \<union> refs m"
    by (simp add: set_RowRefList_insert)
  moreover have "set mapped \<subseteq> refs m"
    using Some unfolding refs_def by blast
  ultimately show ?thesis using Some by (auto simp: insertAll_def)
qed

lemma refs_insertRow:
  assumes "\<not> mapped_one join" and "strictness join \<noteq> Asof"
  shows "refs (insertRow join kg sb nm i m)
         = (if is_null_at nm i then refs m else insert (sb, i) (refs m))"
  using assms by (simp add: insertRow_def refs_insertAll)

lemma refs_fold_insertRow:
  assumes "\<not> mapped_one join" and "strictness join \<noteq> Asof"
  shows "refs (fold (insertRow join kg sb nm) [0..<n] m)
         = refs m \<union> {(sb, i) | i. i < n \<and> \<not> is_null_at nm i}"
  by (induction n) (auto simp: refs_insertRow [OF assms] less_Suc_eq)

lemma refs_insertFromBlockImpl:
  assumes "\<not> mapped_one join" and "strictness join \<noteq> Asof" and "map_variant t"
  shows "refs (fst (insertFromBlockImpl X join t m n kc sb nm))
         = refs m \<union> {(sb, i) | i. i < n \<and> \<not> is_null_at nm i}"
  using assms(3)
  by (simp add: insertFromBlockImpl_def map_variant_def Let_def insertFromBlockImplTypeCase_def
        refs_fold_insertRow [OF assms(1,2)])

lemma insert_disjunct_other_maps:
  assumes "d' \<noteq> d"
  shows "insert_disjunct X join d n kc sb nm = Inl (e, join')
           \<Longrightarrow> maps join' ! d' = maps join ! d'"
    and "insert_disjunct X join d n kc sb nm = Inr join'
           \<Longrightarrow> maps join' ! d' = maps join ! d'"
  using assms
  by (auto simp: insert_disjunct_def split: if_splits prod.splits sum.splits)

lemma addJoinedBlock_loop_maps_before:
  "d' < d \<Longrightarrow>
   maps (snd (addJoinedBlock_loop X cl n ks sb inds d sv tot join)) ! d' = maps join ! d'"
proof (induction inds arbitrary: d sv tot join)
  case Nil
  show ?case by (cases tot) simp
next
  case (Cons ind inds)
  have ne: "d' \<noteq> d" using Cons.prems by simp
  have lt: "d' < Suc d" using Cons.prems by simp
  show ?case
    using Cons.IH [OF lt] insert_disjunct_other_maps [OF ne]
    by (cases tot) (auto simp: Let_def split: prod.splits if_splits sum.splits)
qed

lemma addJoinedBlock_loop_refs:
  assumes "fst (addJoinedBlock_loop X True n ks sb inds d sv tot join) = Inr r"
    and "kind join \<noteq> Cross" and "map_variant (data_type join)"
    and "\<not> mapped_one join" and "strictness join \<noteq> Asof"
    and "d + length inds \<le> length (maps join)" and "j < length inds"
  shows "refs (maps (snd (addJoinedBlock_loop X True n ks sb inds d sv tot join)) ! (d + j))
         = refs (maps join ! (d + j))
           \<union> {(sb, i) | i. i < n \<and> \<not> is_null_at (null_map_of ks (inds ! j)) i}"
  using assms
proof (induction inds arbitrary: d sv tot join j)
  case Nil
  then show ?case by simp
next
  case (Cons ind inds)
  obtain kc nm where ex: "extractNestedColumnsAndNullMap (map (\<lambda>i. ks ! i) ind) = (kc, nm)"
    by (cases "extractNestedColumnsAndNullMap (map (\<lambda>i. ks ! i) ind)")
  obtain m' sz where ins:
    "insertFromBlockImpl X join (data_type join) (maps join ! d) n kc sb nm = (m', sz)"
    by (cases "insertFromBlockImpl X join (data_type join) (maps join ! d) n kc sb nm")
  have unlocked: "\<not> storage_join_locked join"
    using Cons.prems(1) ex by (cases tot) (auto simp: Let_def)
  obtain uf where uf:
    "reinit (assertions X) (flagged join) (sz + 1) (used_flags join) = Inr uf"
    using Cons.prems(1,2) ex ins unlocked
    by (cases "reinit (assertions X) (flagged join) (sz + 1) (used_flags join)"; cases tot)
       (auto simp: Let_def insert_disjunct_def)
  let ?join' = "join\<lparr>maps := (maps join)[d := m'], used_flags := uf\<rparr>"
  let ?sv = "sv \<or> (isRightOrFull (kind join) \<and> (case nm of None \<Rightarrow> False | Some m \<Rightarrow> True \<in> set m))"
  let ?tot = "(getTotalRowCount X ?join', getTotalByteCount X ?join')"
  have step: "addJoinedBlock_loop X True n ks sb (ind # inds) d sv tot join
          = addJoinedBlock_loop X True n ks sb inds (Suc d) ?sv ?tot ?join'"
    using ex ins uf unlocked Cons.prems(2)
    by (cases tot) (simp add: Let_def insert_disjunct_def)
  have d: "d < length (maps join)" using Cons.prems(6) by simp
  have m': "refs m' = refs (maps join ! d) \<union> {(sb, i) | i. i < n \<and> \<not> is_null_at nm i}"
    using refs_insertFromBlockImpl [OF Cons.prems(4,5,3), of X "maps join ! d" n kc sb nm] ins
    by simp
  have nm: "null_map_of ks ind = nm" by (simp add: null_map_of_def ex)
  show ?case
  proof (cases j)
    case 0
    have "maps (snd (addJoinedBlock_loop X True n ks sb inds (Suc d) ?sv ?tot ?join')) ! d
          = maps ?join' ! d"
      by (rule addJoinedBlock_loop_maps_before) simp
    then show ?thesis
      unfolding step using 0 d m' nm by simp
  next
    case (Suc j')
    have "refs (maps (snd (addJoinedBlock_loop X True n ks sb inds (Suc d) ?sv ?tot ?join'))
                 ! (Suc d + j'))
         = refs (maps ?join' ! (Suc d + j'))
           \<union> {(sb, i) | i. i < n \<and> \<not> is_null_at (null_map_of ks (inds ! j')) i}"
    proof (rule Cons.IH)
      show "fst (addJoinedBlock_loop X True n ks sb inds (Suc d) ?sv ?tot ?join') = Inr r"
        using Cons.prems(1) step by simp
      show "kind ?join' \<noteq> Cross" using Cons.prems(2) by simp
      show "map_variant (data_type ?join')" using Cons.prems(3) by simp
      show "\<not> mapped_one ?join'" using Cons.prems(4) by simp
      show "strictness ?join' \<noteq> Asof" using Cons.prems(5) by simp
      show "Suc d + length inds \<le> length (maps ?join')" using Cons.prems(6) by simp
      show "j' < length inds" using Cons.prems(7) Suc by simp
    qed
    then show ?thesis
      unfolding step using Suc by simp
  qed
qed

lemma addJoinedBlock_with_limits_refs:
  assumes "fst (addJoinedBlock X join source_block True) = Inr r"
    and "kind join \<noteq> Cross" and "map_variant (data_type join)"
    and "\<not> mapped_one join" and "strictness join \<noteq> Asof"
    and "length (maps join) = length (key_names_right join)"
    and "d < length (key_names_right join)"
  shows "refs (maps (snd (addJoinedBlock X join source_block True)) ! d)
         = refs (maps join ! d)
           \<union> {(length (blocks join), i) | i.
                i < rows source_block \<and> \<not> is_null_at (key_null_map join source_block d) i}"
proof -
  obtain names inds where
    ki: "key_names_right_indexes (key_names_right join) = (names, inds)"
    by (cases "key_names_right_indexes (key_names_right join)")
  have len: "length inds = length (key_names_right join)"
    using key_names_right_indexes_length [of "key_names_right join"] ki by simp
  have pre: "\<not> empty join" "\<not> overDictionary join"
    using assms(3) by (auto simp: map_variant_def empty_def overDictionary_def)
  have small: "\<not> 4294967295 < rows source_block"
    using assms(1) pre by (auto simp: addJoinedBlock_def)
  obtain ks where ks: "getColumns source_block names = Inr ks"
    using assms(1) pre small ki
    by (cases "getColumns source_block names") (auto simp: addJoinedBlock_def Let_def)
  obtain sb where sb: "structureRightBlock join source_block = Inr sb"
    using assms(1) pre small ki ks
    by (cases "structureRightBlock join source_block") (auto simp: addJoinedBlock_def Let_def)
  let ?join1 = "join\<lparr>blocks := blocks join
                     @ [if nullable_right_side join \<and> 1 < length (key_names_right join)
                        then convertColumnsToNullable sb else sb],
                   data_empty := (if rows source_block \<noteq> 0 then False else data_empty join)\<rparr>"
  have unfold: "addJoinedBlock X join source_block True
      = addJoinedBlock_loop X True (rows source_block) ks (length (blocks join)) inds 0
          False (0, 0) ?join1"
    using pre small ki ks sb by (simp add: addJoinedBlock_def Let_def)
  have nm: "key_null_map join source_block d = null_map_of ks (inds ! d)"
    by (simp add: key_null_map_def ki ks)
  have "refs (maps (snd (addJoinedBlock_loop X True (rows source_block) ks (length (blocks join))
                          inds 0 False (0, 0) ?join1)) ! (0 + d))
         = refs (maps ?join1 ! (0 + d))
           \<union> {(length (blocks join), i) | i.
                i < rows source_block \<and> \<not> is_null_at (null_map_of ks (inds ! d)) i}"
  proof (rule addJoinedBlock_loop_refs)
    show "fst (addJoinedBlock_loop X True (rows source_block) ks (length (blocks join))
                inds 0 False (0, 0) ?join1) = Inr r"
      using assms(1) unfold by simp
    show "kind ?join1 \<noteq> Cross" using assms(2) by simp
    show "map_variant (data_type ?join1)" using assms(3) by simp
    show "\<not> mapped_one ?join1" using assms(4) by simp
    show "strictness ?join1 \<noteq> Asof" using assms(5) by simp
    show "0 + length inds \<le> length (maps ?join1)" using assms(6) len by simp
    show "d < length inds" using assms(7) len by simp
  qed
  then show ?thesis unfolding unfold nm by simp
qed


text \<open>
  A call without limit check leaves the map of every disjunct but the first as it was,
  whatever the block: the loop over the disjuncts returns in its first round.
\<close>

lemma addJoinedBlock_loop_without_limits:
  "d' \<noteq> d \<Longrightarrow>
   maps (snd (addJoinedBlock_loop X False n ks sb inds d sv tot join)) ! d' = maps join ! d'"
  using insert_disjunct_other_maps [of d' d X join n _ sb]
  by (cases inds; cases tot) (auto simp: Let_def split: prod.splits sum.splits)

lemma addJoinedBlock_without_limits_other_maps:
  assumes "d \<noteq> 0"
  shows "maps (snd (addJoinedBlock X join source_block False)) ! d = maps join ! d"
  using addJoinedBlock_loop_without_limits [OF assms]
  by (simp add: addJoinedBlock_def Let_def split: prod.splits sum.splits)

text \<open>
  C4, on the code. The rows \<open>(a=1, b=2)\<close> and \<open>(a=3, b=2)\<close> have no NULL in any key,
  and the instance has the disjuncts \<open>[a]\<close> and \<open>[b]\<close> and chains as mapped values.
  Called without limit check, \<^verbatim>\<open>addJoinedBlock\<close> returns true from inside the loop
  over the disjuncts, after the first one: the map of disjunct \<open>[a]\<close> has both rows and
  the map of disjunct \<open>[b]\<close> stays empty. Called with limit check it runs the loop to
  its end and both maps have both rows.
\<close>

theorem addJoinedBlock_without_limits_fills_first_map_only:
  "addJoinedBlock_result_maps False
     = (Inr True, [[([IntField 1], [(0, 0)]), ([IntField 3], [(0, 1)])], []])
   \<and> addJoinedBlock_result_maps True
     = (Inr True, [[([IntField 1], [(0, 0)]), ([IntField 3], [(0, 1)])],
                   [([IntField 2], [(0, 0), (0, 1)])]])"
  by (simp add: addJoinedBlock_result_maps_def example_simps)

end
